theory Spec2Isabelle
  imports Main "HOL-Library.Word"
begin

section \<open>Machine integers and decimal text\<close>

text \<open>
  Go's \<open>int64\<close> is a 64-bit two's-complement word: \<open>+\<close> wraps, \<open>sint\<close> reads the signed
  value. Go's \<open>int\<close> is taken at its 64-bit width (the width on the platforms the service
  is built for).
\<close>

type_synonym int64 = "64 word"
type_synonym int32 = "32 word"

definition digitChar :: "nat \<Rightarrow> char" where
  "digitChar n = char_of (48 + n)"

definition isDigit :: "char \<Rightarrow> bool" where
  "isDigit c \<longleftrightarrow> 48 \<le> (of_char c :: nat) \<and> (of_char c :: nat) \<le> 57"

definition digitVal :: "char \<Rightarrow> nat" where
  "digitVal c = of_char c - 48"

text \<open>The decimal digits of a natural number, most significant first (no leading zero,
  \<open>0\<close> is \<open>''0''\<close>).\<close>

function formatUint :: "nat \<Rightarrow> string" where
  "formatUint n = (if n < 10 then [digitChar n] else formatUint (n div 10) @ [digitChar (n mod 10)])"
  by pat_completeness auto
termination
  by (relation "measure (\<lambda>n. n)") auto

declare formatUint.simps [simp del]

text \<open>\<open>strconv.FormatInt(i, 10)\<close>, which is also what \<open>fmt.Sprintf("%d", i)\<close> and
  \<open>strconv.Itoa\<close> print: a minus sign for a negative value, then the digits of the
  magnitude.\<close>

definition FormatInt :: "int64 \<Rightarrow> string" where
  "FormatInt i = (if sint i < 0 then CHR ''-'' # formatUint (nat (- sint i))
                  else formatUint (nat (sint i)))"

datatype NumErr = ErrSyntax | ErrRange

text \<open>The digit loop of \<open>strconv.ParseUint(s, 10, 64)\<close>: any byte that is not a decimal
  digit is a syntax error (base 10 takes no underscore), and the scan stops with a range
  error as soon as the value no longer fits 64 bits.\<close>

fun parseUintLoop :: "nat \<Rightarrow> string \<Rightarrow> NumErr + nat" where
  "parseUintLoop n [] = Inr n"
| "parseUintLoop n (c # cs) =
     (if \<not> isDigit c then Inl ErrSyntax
      else if n \<ge> (2 ^ 64 - 1) div 10 + 1 then Inl ErrRange
      else if n * 10 + digitVal c \<ge> 2 ^ 64 then Inl ErrRange
      else parseUintLoop (n * 10 + digitVal c) cs)"

definition ParseUint :: "string \<Rightarrow> NumErr + nat" where
  "ParseUint s = (if s = [] then Inl ErrSyntax else parseUintLoop 0 s)"

text \<open>\<open>strconv.ParseInt(s, 10, 64)\<close>: an optional sign, then \<open>ParseUint\<close>, then the
  range check against \<open>2^63\<close>.\<close>

definition ParseInt :: "string \<Rightarrow> NumErr + int64" where
  "ParseInt s =
     (if s = [] then Inl ErrSyntax
      else let neg = (hd s = CHR ''-'');
               rest = (if hd s = CHR ''+'' \<or> hd s = CHR ''-'' then tl s else s)
           in case ParseUint rest of
                Inl e \<Rightarrow> Inl e
              | Inr un \<Rightarrow>
                  if \<not> neg \<and> un \<ge> 2 ^ 63 then Inl ErrRange
                  else if neg \<and> un > 2 ^ 63 then Inl ErrRange
                  else Inr (if neg then - (word_of_nat un) else word_of_nat un))"


section \<open>Errors, panics and the deferred recover\<close>

datatype ErrCode =
    ErrWorkflowExecuteFail
  | ErrWorkflowOperationFail
  | ErrInterruptNotSupported
  | ErrInvalidParameter
  | ErrWorkflowNotPublished
  | ErrCodeOther int

text \<open>
  Modelled from the spec: the error values of the packages \<open>vo\<close>, \<open>errno\<close> and \<open>safego\<close>,
  which are not part of the sources at hand, next to those of Go's library.
  Go \<open>error\<close> values as the service builds them: \<open>errors.New\<close> and \<open>fmt.Errorf\<close> without
  \<open>%w\<close> (a message), \<open>fmt.Errorf\<close> with \<open>%w\<close> (a message around a wrapped error), the
  \<open>*strconv.NumError\<close> of a failed parse, a run-time panic value such as a nil dereference,
  \<open>safego.NewPanicErr\<close> around a recovered panic value, and the typed \<open>vo.WorkflowError\<close>
  with its code, message and wrapped cause.
\<close>

datatype error =
    ErrorString string
  | Wrapf string error
  | NumError string NumErr
  | RuntimeError string
  | PanicErr error
  | WorkflowError ErrCode string "error option"

text \<open>How a Go function body ends: it returns a value, returns an error, or panics with a
  value (a string passed to \<open>panic\<close> is \<open>ErrorString\<close>).\<close>

datatype 'a result = Return 'a | Fail error | Panic error

definition bindR :: "'a result \<Rightarrow> ('a \<Rightarrow> 'b result) \<Rightarrow> 'b result" where
  "bindR r f = (case r of Return x \<Rightarrow> f x | Fail e \<Rightarrow> Fail e | Panic p \<Rightarrow> Panic p)"

definition liftE :: "error + 'a \<Rightarrow> 'a result" where
  "liftE r = (case r of Inl e \<Rightarrow> Fail e | Inr x \<Rightarrow> Return x)"

text \<open>\<open>errors.As(err, &wfe)\<close> for a \<open>vo.WorkflowError\<close> target: the first typed workflow
  error on the \<open>Unwrap\<close> chain. Only \<open>%w\<close> wrapping and the workflow error itself unwrap.\<close>

fun asWorkflowError :: "error \<Rightarrow> error option" where
  "asWorkflowError (WorkflowError c m cause) = Some (WorkflowError c m cause)"
| "asWorkflowError (Wrapf m e) = asWorkflowError e"
| "asWorkflowError e = None"

text \<open>Modelled from the spec: \<open>vo.WrapIfNeeded\<close> (package \<open>vo\<close> is not part of the
  sources at hand). A typed workflow error is surfaced verbatim; anything else is wrapped
  into the generic kind \<open>code\<close> carrying its cause (the wrapped error itself stands for the
  \<open>cause\<close> key that the callers add).\<close>

definition WrapIfNeeded :: "ErrCode \<Rightarrow> error \<Rightarrow> error" where
  "WrapIfNeeded code err =
     (case asWorkflowError err of
        Some wfe \<Rightarrow> wfe
      | None \<Rightarrow> WorkflowError code [] (Some err))"

text \<open>Modelled from the spec: \<open>vo.NewError(code)\<close> and \<open>vo.WrapError(code, err)\<close> (package
  \<open>vo\<close> is not part of the sources at hand): a typed workflow error of the given code,
  without and with a cause.\<close>

definition NewError :: "ErrCode \<Rightarrow> error" where
  "NewError code = WorkflowError code [] None"

definition WrapError :: "ErrCode \<Rightarrow> error \<Rightarrow> error" where
  "WrapError code err = WorkflowError code [] (Some err)"

text \<open>
  The deferred function that opens the public operations:
  \<^verbatim>\<open>defer func() {
    if panicErr := recover(); panicErr != nil { err = safego.NewPanicErr(panicErr, debug.Stack()) }
    if err != nil { err = vo.WrapIfNeeded(code, err, errorx.KV("cause", vo.UnwrapRootErr(err).Error())) }
  }()\<close>
  It sees how the body ended and fixes what the caller gets: an error or the value.
\<close>

definition deferRecover :: "ErrCode \<Rightarrow> 'a result \<Rightarrow> error + 'a" where
  "deferRecover code r =
     (case r of
        Panic p \<Rightarrow> Inl (WrapIfNeeded code (PanicErr p))
      | Fail e \<Rightarrow> Inl (WrapIfNeeded code e)
      | Return x \<Rightarrow> Inr x)"

definition mustParseInt64 :: "string \<Rightarrow> int64 result" where
  "mustParseInt64 s = (case ParseInt s of Inl e \<Rightarrow> Panic (NumError s e) | Inr i \<Rightarrow> Return i)"

section \<open>Entities read by the application layer\<close>

text \<open>
  Modelled from the spec: the types of the entity and IDL packages, which are not part of
  the sources at hand. They hold the fields that \<open>workflow.go\<close> reads and writes, under the
  names it uses, with the status values of the data model. A pointer that may be \<open>nil\<close> is
  an \<open>option\<close>.
\<close>

text \<open>Modelled from the spec: \<open>entity.NodeType\<close>. The code compares it with \<open>NodeTypeBatch\<close> and \<open>NodeTypeExit\<close>
  only; every other type is \<open>NodeTypeOther\<close> with its name.\<close>

datatype NodeType = NodeTypeBatch | NodeTypeExit | NodeTypeOther string

text \<open>Modelled from the spec: \<open>entity.NodeExecuteStatus\<close> and, after the cast \<open>workflow.NodeExeStatus(status)\<close>
  that keeps the number, the IDL's status: \<open>NodeFailed\<close> is \<open>NodeExeStatus_Fail\<close> and
  \<open>NodeSuccess\<close> is \<open>NodeExeStatus_Success\<close>.\<close>

datatype NodeExecuteStatus = NodeRunning | NodeSuccess | NodeFailed | NodeSkipped

text \<open>Modelled from the spec: \<open>entity.WorkflowExecuteStatus\<close>, and the IDL's \<open>WorkflowExeStatus\<close> after the cast
  that keeps the number; \<open>WorkflowStatusOther\<close> stands for a number without a name.\<close>

datatype WorkflowExecuteStatus =
    WorkflowRunning
  | WorkflowSuccess
  | WorkflowFailed
  | WorkflowCancel
  | WorkflowInterrupted
  | WorkflowStatusOther int

datatype InterruptEventType = InterruptEventLLM | InterruptEventOther int

record TokenUsage =
  InputTokens :: int64
  OutputTokens :: int64

text \<open>\<open>entity.NodeExtra\<close>: the sub-execution link that \<open>convertNodeExecution\<close> writes, and
  the rest of the payload.\<close>

record NodeExtra =
  SubExecuteID :: int64
  ResponseExtra :: string

text \<open>\<open>entity.NodeExecution\<close>. \<open>Duration\<close> is a \<open>time.Duration\<close>, a count of nanoseconds;
  \<open>IndexedExecutions\<close> may hold \<open>nil\<close> entries (holes); of \<open>SubWorkflowExecution\<close> only the
  \<open>ID\<close> is read, so the field holds that id.\<close>

datatype NodeExecution = NodeExecution
  (NodeID: string)
  (NodeName: string)
  (NodeType: NodeType)
  (Status: NodeExecuteStatus)
  (ErrorInfo: "string option")
  (Input: "string option")
  (Output: "string option")
  (RawOutput: "string option")
  (ErrorLevel: "string option")
  (Duration: int64)
  (TokenInfo: "TokenUsage option")
  (ParentNodeID: "string option")
  (Index: int64)
  (Items: "string option")
  (IndexedExecutions: "NodeExecution option list")
  (SubWorkflowExecution: "int64 option")
  (Extra: "NodeExtra option")
  (ExecuteID: int64)

record ToolInterruptEvent =
  NodeKey :: string
  NodeType :: NodeType
  NodeTitle :: string
  NodeIcon :: string
  EventType :: InterruptEventType
  InterruptData :: string

record InterruptEvent =
  ID :: int64
  NodeKey :: string
  NodeType :: NodeType
  NodeTitle :: string
  NodeIcon :: string
  EventType :: InterruptEventType
  InterruptData :: string
  ToolInterruptEvent :: "ToolInterruptEvent option"

record WorkflowExecution =
  ID :: int64
  WorkflowID :: int64
  SpaceID :: int64
  RootExecutionID :: int64
  Status :: WorkflowExecuteStatus
  Duration :: int64
  FailReason :: "string option"
  LogID :: string
  TokenInfo :: "TokenUsage option"
  AppID :: "int64 option"
  NodeExecutions :: "NodeExecution list"
  NodeCount :: int32
  InterruptEvents :: "InterruptEvent list"
  Output :: "string option"

section \<open>The IDL's response types\<close>

record TokenAndCost =
  InputTokens :: "string option"
  OutputTokens :: "string option"
  TotalTokens :: "string option"

record NodeResult =
  NodeId :: string
  NodeType :: string
  NodeName :: string
  NodeStatus :: NodeExecuteStatus
  ErrorInfo :: string
  Input :: string
  Output :: string
  NodeExeCost :: string
  TokenAndCost :: "TokenAndCost option"
  RawOutput :: "string option"
  ErrorLevel :: string
  Index :: "int32 option"
  Items :: "string option"
  IsBatch :: "bool option"
  Batch :: "string option"
  Extra :: string
  SubExecuteId :: "string option"
  ExecuteId :: "string option"
  NeedAsync :: "bool option"

record NodeEvent =
  ID :: string
  NodeID :: string
  NodeTitle :: string
  NodeIcon :: string
  Data :: string
  Type :: InterruptEventType
  SchemaNodeID :: string

datatype WorkflowExeHistoryStatus = NoHistory | HasHistory

record GetWorkFlowProcessData =
  WorkFlowId :: string
  ExecuteId :: string
  ExecuteStatus :: WorkflowExecuteStatus
  ExeHistoryStatus :: WorkflowExeHistoryStatus
  WorkflowExeCost :: string
  Reason :: "string option"
  LogID :: string
  NodeEvents :: "NodeEvent list"
  TokenAndCost :: "TokenAndCost option"
  ProjectId :: string
  NodeResults :: "NodeResult list"
  Rate :: string

section \<open>What other packages provide\<close>

text \<open>
  Helpers, constants and tables of other packages that the functions below call, taken as
  parameters: the display key of a node type (\<open>entity.NodeMetaByNodeType(t).GetDisplayKey()\<close>),
  \<open>vo.IsGeneratedNodeForBatchMode\<close>, the floating-point renderings
  \<open>fmt.Sprintf("%.3fs", d.Seconds())\<close> and \<open>fmt.Sprintf("%.2f", float64(a)/float64(b))\<close>,
  \<open>sonic.MarshalString\<close> on a list of sub-results and on a \<open>NodeExtra\<close> (each may fail), the
  package variable \<open>nodeIconURLCache\<close>, the constants \<open>entity.ExitNodeKey\<close>,
  \<open>workflow.NodeTemplateType_Start.String()\<close>, \<open>workflow.NodeTemplateType_End.String()\<close>
  and \<open>vo.LevelError\<close>, and \<open>debugutil.GetWorkflowDebugURL\<close>.
\<close>

record Lib =
  GetDisplayKey :: "NodeType \<Rightarrow> string"
  IsGeneratedNodeForBatchMode :: "string \<Rightarrow> string \<Rightarrow> bool"
  SprintfSeconds :: "int64 \<Rightarrow> string"
  SprintfRate :: "int64 \<Rightarrow> int32 \<Rightarrow> string"
  MarshalNodeResults :: "NodeResult option list \<Rightarrow> error + string"
  MarshalNodeExtra :: "NodeExtra \<Rightarrow> error + string"
  nodeIconURLCache :: "NodeType \<rightharpoonup> string"
  ExitNodeKey :: string
  NodeTemplateType_Start :: string
  NodeTemplateType_End :: string
  LevelError :: string
  GetWorkflowDebugURL :: "int64 \<Rightarrow> int64 \<Rightarrow> int64 \<Rightarrow> string"

section \<open>Converting node executions\<close>

text \<open>The loop over \<open>IndexedExecutions\<close> returns at the first sub-conversion that fails;
  a \<open>nil\<close> entry stays a \<open>nil\<close> sub-result.\<close>

fun collectSubResults :: "(error + NodeResult) option list \<Rightarrow> error + NodeResult option list" where
  "collectSubResults [] = Inr []"
| "collectSubResults (None # rs) =
     (case collectSubResults rs of Inl e \<Rightarrow> Inl e | Inr xs \<Rightarrow> Inr (None # xs))"
| "collectSubResults (Some (Inl e) # rs) = Inl e"
| "collectSubResults (Some (Inr x) # rs) =
     (case collectSubResults rs of Inl e \<Rightarrow> Inl e | Inr xs \<Rightarrow> Inr (Some x # xs))"

definition tokenAndCostOf :: "TokenUsage \<Rightarrow> TokenAndCost" where
  "tokenAndCostOf t =
     \<lparr> InputTokens = Some (FormatInt (TokenUsage.InputTokens t) @ '' Tokens''),
       OutputTokens = Some (FormatInt (TokenUsage.OutputTokens t) @ '' Tokens''),
       TotalTokens = Some (FormatInt (TokenUsage.InputTokens t + TokenUsage.OutputTokens t) @ '' Tokens'') \<rparr>"

definition FromOrDefault :: "'a option \<Rightarrow> 'a \<Rightarrow> 'a" where
  "FromOrDefault p d = (case p of None \<Rightarrow> d | Some v \<Rightarrow> v)"

text \<open>
  \<open>convertNodeExecution\<close>. The fields are filled in the order of the source; the three
  places that can return an error are the sub-conversions, the marshalling of the
  sub-results and the marshalling of \<open>Extra\<close>. The write to \<open>nodeExe.Extra\<close> is kept local:
  only the marshalled \<open>Extra\<close> of the result shows it.
\<close>

primrec convertNodeExecution :: "Lib \<Rightarrow> NodeExecution \<Rightarrow> error + NodeResult" where
  "convertNodeExecution lib (NodeExecution nodeID nodeName nodeType status errorInfo input output
       rawOutput errorLevel duration tokenInfo parentNodeID index items indexedExecutions
       subWorkflowExecution extra executeID) =
     (let nr0 = \<lparr> NodeId = nodeID,
                   NodeType = GetDisplayKey lib nodeType,
                   NodeName = nodeName,
                   NodeStatus = status,
                   ErrorInfo = FromOrDefault errorInfo [],
                   Input = FromOrDefault input [],
                   Output = FromOrDefault output [],
                   NodeExeCost = SprintfSeconds lib duration,
                   TokenAndCost = map_option tokenAndCostOf tokenInfo,
                   RawOutput = rawOutput,
                   ErrorLevel = FromOrDefault errorLevel [],
                   Index = (if parentNodeID \<noteq> None then Some (ucast index) else None),
                   Items = (if parentNodeID \<noteq> None then items else None),
                   IsBatch = None,
                   Batch = None,
                   Extra = [],
                   SubExecuteId = None,
                   ExecuteId = None,
                   NeedAsync = None \<rparr>;
          batched =
            (if indexedExecutions \<noteq> [] then
               (case collectSubResults (map (map_option (convertNodeExecution lib)) indexedExecutions) of
                  Inl e \<Rightarrow> Inl e
                | Inr subResults \<Rightarrow>
                    (case MarshalNodeResults lib subResults of
                       Inl e \<Rightarrow> Inl e
                     | Inr m \<Rightarrow> Inr (nr0\<lparr>IsBatch := Some True, Batch := Some m\<rparr>)))
             else Inr nr0)
      in case batched of
           Inl e \<Rightarrow> Inl e
         | Inr nr1 \<Rightarrow>
             (let extra1 =
                    (case subWorkflowExecution of
                       None \<Rightarrow> extra
                     | Some subID \<Rightarrow>
                         Some ((case extra of
                                  None \<Rightarrow> \<lparr>SubExecuteID = 0, ResponseExtra = []\<rparr>
                                | Some x \<Rightarrow> x)\<lparr>SubExecuteID := subID\<rparr>));
                  nr2 =
                    (case subWorkflowExecution of
                       None \<Rightarrow> nr1
                     | Some subID \<Rightarrow>
                         nr1\<lparr>SubExecuteId := Some (FormatInt subID),
                             NodeResult.ExecuteId := Some (FormatInt executeID)\<rparr>)
              in case extra1 of
                   None \<Rightarrow> Inr nr2
                 | Some x \<Rightarrow>
                     (case MarshalNodeExtra lib x of
                        Inl e \<Rightarrow> Inl e
                      | Inr m \<Rightarrow> Inr (nr2\<lparr>NodeResult.Extra := m\<rparr>))))"

text \<open>\<open>mergeBatchModeNodes(parent, inner)\<close>; the fields it does not set (\<open>Index\<close>,
  \<open>Items\<close>) keep Go's zero value.\<close>

definition mergeBatchModeNodes :: "NodeResult \<Rightarrow> NodeResult \<Rightarrow> NodeResult" where
  "mergeBatchModeNodes parent inner =
     \<lparr> NodeId = NodeId parent,
       NodeType = NodeResult.NodeType inner,
       NodeName = NodeResult.NodeName parent,
       NodeStatus = NodeStatus parent,
       ErrorInfo = NodeResult.ErrorInfo parent,
       Input = NodeResult.Input parent,
       Output = NodeResult.Output parent,
       NodeExeCost = NodeExeCost parent,
       TokenAndCost = NodeResult.TokenAndCost parent,
       RawOutput = NodeResult.RawOutput parent,
       ErrorLevel = NodeResult.ErrorLevel parent,
       Index = None,
       Items = None,
       IsBatch = IsBatch inner,
       Batch = Batch inner,
       Extra = NodeResult.Extra inner,
       SubExecuteId = SubExecuteId parent,
       ExecuteId = NodeResult.ExecuteId parent,
       NeedAsync = NeedAsync parent \<rparr>"

section \<open>GetProcess\<close>

text \<open>
  \<open>endNodeExe\<close> is a pointer to a \<open>NodeResult\<close>: \<open>nil\<close>, or the result converted from the
  last exit node. That object is either an element of \<open>resp.Data.NodeResults\<close> (at an
  index), so that a write through the pointer shows in the listing, or it is not in the
  listing (it was merged into a fresh object or cached), and a write to it shows nowhere.
\<close>

datatype NodeResultPtr = NilPtr | Unlisted | Listed nat

record LoopState =
  hasNodeErr :: bool
  endNodeExe :: NodeResultPtr
  batchNodeID2NodeResult :: "string \<rightharpoonup> NodeResult"
  batchNodeID2InnerNodeResult :: "string \<rightharpoonup> NodeResult"
  successNum :: int64
  nodeResults :: "NodeResult list"

definition initLoopState :: LoopState where
  "initLoopState =
     \<lparr> hasNodeErr = False, endNodeExe = NilPtr,
       batchNodeID2NodeResult = Map.empty, batchNodeID2InnerNodeResult = Map.empty,
       successNum = 0, nodeResults = [] \<rparr>"

text \<open>The end of the loop body (lines 744 to 748): count a success, append \<open>nr\<close>. \<open>own\<close>
  says that \<open>nr\<close> is the very object \<open>endNodeExe\<close> points to.\<close>

definition appendNodeResult :: "LoopState \<Rightarrow> NodeResult \<Rightarrow> bool \<Rightarrow> LoopState" where
  "appendNodeResult st nr own =
     st\<lparr> successNum := (if NodeStatus nr = NodeSuccess then successNum st + 1 else successNum st),
         nodeResults := nodeResults st @ [nr],
         endNodeExe := (if own then Listed (length (nodeResults st)) else endNodeExe st) \<rparr>"

text \<open>The head of the loop body (lines 710 to 721): a failed node with error info sets
  \<open>hasNodeErr\<close>, and the result converted from an exit node becomes \<open>endNodeExe\<close> (not yet
  in the listing).\<close>

definition noteNode :: "LoopState \<Rightarrow> NodeExecution \<Rightarrow> LoopState" where
  "noteNode st nodeExe =
     (let st1 = (if NodeExecution.Status nodeExe = NodeFailed \<and> NodeExecution.ErrorInfo nodeExe \<noteq> None
                 then st\<lparr>hasNodeErr := True\<rparr> else st)
      in if NodeExecution.NodeType nodeExe = NodeTypeExit then st1\<lparr>endNodeExe := Unlisted\<rparr> else st1)"

text \<open>The rest of the loop body (lines 723 to 748) for the converted result \<open>nr\<close>: cache
  it, merge it with the cached other half, or list it as it is. The dereference
  \<open>*nodeExe.ParentNodeID\<close> panics on \<open>nil\<close>.\<close>

definition placeNodeResult :: "Lib \<Rightarrow> LoopState \<Rightarrow> NodeExecution \<Rightarrow> NodeResult \<Rightarrow> LoopState result" where
  "placeNodeResult lib st nodeExe nr =
     (if NodeExecution.NodeType nodeExe = NodeTypeBatch then
        (case batchNodeID2InnerNodeResult st (NodeExecution.NodeID nodeExe) of
           Some inner \<Rightarrow>
             Return (appendNodeResult
               (st\<lparr>batchNodeID2InnerNodeResult :=
                     (batchNodeID2InnerNodeResult st)(NodeExecution.NodeID nodeExe := None)\<rparr>)
               (mergeBatchModeNodes inner nr) False)
         | None \<Rightarrow>
             Return (st\<lparr>batchNodeID2NodeResult :=
                     (batchNodeID2NodeResult st)(NodeExecution.NodeID nodeExe \<mapsto> nr)\<rparr>))
      else if IndexedExecutions nodeExe \<noteq> [] then
        (case ParentNodeID nodeExe of
           None \<Rightarrow> Panic (RuntimeError ''invalid memory address or nil pointer dereference'')
         | Some parentID \<Rightarrow>
             if IsGeneratedNodeForBatchMode lib (NodeExecution.NodeID nodeExe) parentID then
               (case batchNodeID2NodeResult st parentID of
                  Some parentNodeResult \<Rightarrow>
                    Return (appendNodeResult
                      (st\<lparr>batchNodeID2NodeResult := (batchNodeID2NodeResult st)(parentID := None)\<rparr>)
                      (mergeBatchModeNodes parentNodeResult nr) False)
                | None \<Rightarrow>
                    Return (st\<lparr>batchNodeID2InnerNodeResult :=
                            (batchNodeID2InnerNodeResult st)(parentID \<mapsto> nr)\<rparr>))
             else Return (appendNodeResult st nr (NodeExecution.NodeType nodeExe = NodeTypeExit)))
      else Return (appendNodeResult st nr (NodeExecution.NodeType nodeExe = NodeTypeExit)))"

text \<open>One pass of \<open>for _, nodeExe := range wfExeEntity.NodeExecutions\<close>; a failed conversion
  returns its error from \<open>GetProcess\<close>.\<close>

definition nodeLoopBody :: "Lib \<Rightarrow> LoopState \<Rightarrow> NodeExecution \<Rightarrow> LoopState result" where
  "nodeLoopBody lib st nodeExe =
     (case convertNodeExecution lib nodeExe of
        Inl err \<Rightarrow> Fail err
      | Inr nr \<Rightarrow> placeNodeResult lib (noteNode st nodeExe) nodeExe nr)"

fun nodeLoop :: "Lib \<Rightarrow> LoopState \<Rightarrow> NodeExecution list \<Rightarrow> LoopState result" where
  "nodeLoop lib st [] = Return st"
| "nodeLoop lib st (nodeExe # rest) =
     (case nodeLoopBody lib st nodeExe of
        Return st' \<Rightarrow> nodeLoop lib st' rest
      | Fail e \<Rightarrow> Fail e
      | Panic p \<Rightarrow> Panic p)"

definition setFailReason :: "Lib \<Rightarrow> string \<Rightarrow> NodeResult \<Rightarrow> NodeResult" where
  "setFailReason lib failReason nr =
     nr\<lparr>NodeResult.ErrorInfo := failReason, NodeResult.ErrorLevel := LevelError lib\<rparr>"

text \<open>The block \<open>if workflowFail && !hasNodeErr\<close> (lines 751 to 776), on the listing built
  by the loop. The synthesized end node has every other field at its zero value (the zero
  \<open>NodeStatus\<close> is left as \<open>NodeExeStatus_Fail\<close>, which the block sets).\<close>

definition attachFailReason :: "Lib \<Rightarrow> bool \<Rightarrow> string option \<Rightarrow> LoopState \<Rightarrow> NodeResult list" where
  "attachFailReason lib workflowFail failReasonPtr st =
     (if workflowFail \<and> \<not> hasNodeErr st then
        (case failReasonPtr of
           None \<Rightarrow> nodeResults st
         | Some failReason \<Rightarrow>
             (case endNodeExe st of
                Listed i \<Rightarrow> (nodeResults st)[i := setFailReason lib failReason (nodeResults st ! i)]
              | Unlisted \<Rightarrow> nodeResults st
              | NilPtr \<Rightarrow>
                  if length (nodeResults st) = 1
                     \<and> NodeResult.NodeType (nodeResults st ! 0) \<noteq> NodeTemplateType_Start lib
                  then (nodeResults st)[0 := setFailReason lib failReason (nodeResults st ! 0)]
                  else nodeResults st @
                       [\<lparr> NodeId = ExitNodeKey lib,
                          NodeType = NodeTemplateType_End lib,
                          NodeName = [],
                          NodeStatus = NodeFailed,
                          ErrorInfo = failReason,
                          Input = [],
                          Output = [],
                          NodeExeCost = [],
                          TokenAndCost = None,
                          RawOutput = None,
                          ErrorLevel = LevelError lib,
                          Index = None,
                          Items = None,
                          IsBatch = None,
                          Batch = None,
                          Extra = [],
                          SubExecuteId = None,
                          ExecuteId = None,
                          NeedAsync = None \<rparr>]))
      else nodeResults st)"

text \<open>
  \<open>for id := range batchNodeID2NodeResult\<close> visits the keys left in the map in an order
  that Go does not fix. The order is the argument \<open>ks\<close>; \<open>rangeOrder m ks\<close> says that \<open>ks\<close>
  is one of the orders the loop can take: every key of the map, once.
\<close>

definition rangeOrder :: "(string \<rightharpoonup> 'a) \<Rightarrow> string list \<Rightarrow> bool" where
  "rangeOrder m ks \<longleftrightarrow> distinct ks \<and> set ks = dom m"

definition leftoverParents :: "(string \<rightharpoonup> NodeResult) \<Rightarrow> string list \<Rightarrow> NodeResult list" where
  "leftoverParents m ks = concat (map (\<lambda>k. case m k of None \<Rightarrow> [] | Some nr \<Rightarrow> [nr]) ks)"

definition countSuccess :: "NodeResult list \<Rightarrow> int64" where
  "countSuccess nrs = word_of_nat (length (filter (\<lambda>nr. NodeStatus nr = NodeSuccess) nrs))"

text \<open>One pass of \<open>for _, ie := range wfExeEntity.InterruptEvents\<close>: an LLM event is
  replaced by its tool event under the same id (a \<open>nil\<close> tool event panics), and the icon
  comes from \<open>nodeIconURLCache\<close> (the empty string for a missing key).\<close>

definition nodeEventOf :: "Lib \<Rightarrow> InterruptEvent \<Rightarrow> NodeEvent result" where
  "nodeEventOf lib ie =
     (if InterruptEvent.EventType ie = InterruptEventLLM then
        (case ToolInterruptEvent ie of
           None \<Rightarrow> Panic (RuntimeError ''invalid memory address or nil pointer dereference'')
         | Some t \<Rightarrow>
             Return \<lparr> ID = FormatInt (InterruptEvent.ID ie),
                      NodeID = ToolInterruptEvent.NodeKey t,
                      NodeTitle = ToolInterruptEvent.NodeTitle t,
                      NodeIcon = FromOrDefault (nodeIconURLCache lib (ToolInterruptEvent.NodeType t)) [],
                      Data = ToolInterruptEvent.InterruptData t,
                      Type = ToolInterruptEvent.EventType t,
                      SchemaNodeID = ToolInterruptEvent.NodeKey t \<rparr>)
      else
        Return \<lparr> ID = FormatInt (InterruptEvent.ID ie),
                 NodeID = InterruptEvent.NodeKey ie,
                 NodeTitle = InterruptEvent.NodeTitle ie,
                 NodeIcon = FromOrDefault (nodeIconURLCache lib (InterruptEvent.NodeType ie)) [],
                 Data = InterruptEvent.InterruptData ie,
                 Type = InterruptEvent.EventType ie,
                 SchemaNodeID = InterruptEvent.NodeKey ie \<rparr>)"

fun nodeEvents :: "Lib \<Rightarrow> InterruptEvent list \<Rightarrow> NodeEvent list result" where
  "nodeEvents lib [] = Return []"
| "nodeEvents lib (ie # rest) =
     bindR (nodeEventOf lib ie) (\<lambda>ev. bindR (nodeEvents lib rest) (\<lambda>evs. Return (ev # evs)))"

text \<open>
  \<open>GetProcess\<close> from line 670 on, that is after the space check and after
  \<open>GetExecution\<close> has returned the entity \<open>wfExeEntity\<close> (either of which returns its error
  before any of this runs). \<open>SprintfSeconds\<close> renders \<open>WorkflowExeCost\<close> like a node's cost.
\<close>

definition GetProcessData :: "Lib \<Rightarrow> WorkflowExecution \<Rightarrow> string list \<Rightarrow> GetWorkFlowProcessData result" where
  "GetProcessData lib wfExeEntity ks =
     (let status = (if WorkflowExecution.Status wfExeEntity = WorkflowInterrupted
                    then WorkflowRunning else WorkflowExecution.Status wfExeEntity);
          workflowFail = (status = WorkflowFailed)
      in bindR (nodeLoop lib initLoopState (NodeExecutions wfExeEntity)) (\<lambda>st.
           let listed = attachFailReason lib workflowFail (FailReason wfExeEntity) st;
               leftover = leftoverParents (batchNodeID2NodeResult st) ks;
               successTotal = successNum st + countSuccess leftover
           in bindR (nodeEvents lib (InterruptEvents wfExeEntity)) (\<lambda>evs.
                Return \<lparr> WorkFlowId = FormatInt (WorkflowID wfExeEntity),
                         ExecuteId = FormatInt (WorkflowExecution.ID wfExeEntity),
                         ExecuteStatus = status,
                         ExeHistoryStatus = HasHistory,
                         WorkflowExeCost = SprintfSeconds lib (WorkflowExecution.Duration wfExeEntity),
                         Reason = FailReason wfExeEntity,
                         LogID = WorkflowExecution.LogID wfExeEntity,
                         NodeEvents = evs,
                         TokenAndCost = map_option tokenAndCostOf (WorkflowExecution.TokenInfo wfExeEntity),
                         ProjectId = (case AppID wfExeEntity of None \<Rightarrow> [] | Some a \<Rightarrow> FormatInt a),
                         NodeResults = listed @ leftover,
                         Rate = (if 0 < sint (NodeCount wfExeEntity)
                                 then SprintfRate lib successTotal (NodeCount wfExeEntity) else []) \<rparr>)))"

section \<open>The stream event converter\<close>

datatype MessageType = Answer | FunctionCall | ToolResponse

text \<open>Modelled from the spec: \<open>entity.Message\<close> (not part of the sources at hand), with
  the fields the converter reads. It embeds a \<open>*StateMessage\<close> and a \<open>*DataMessage\<close>, either of which
  may be \<open>nil\<close>. \<open>LastError\<close> is a Go \<open>error\<close>, \<open>nil\<close> when absent.\<close>

record StateMessage =
  ExecuteID :: int64
  SpaceID :: int64
  Status :: WorkflowExecuteStatus
  LastError :: "error option"
  InterruptEvent :: "InterruptEvent option"

record DataMessage =
  ExecuteID :: int64
  Type :: MessageType
  Content :: string
  NodeID :: string
  NodeTitle :: string
  NodeType :: NodeType
  Last :: bool
  Usage :: "TokenUsage option"

record Message =
  StateMessage :: "StateMessage option"
  DataMessage :: "DataMessage option"

record Interrupt =
  EventID :: string
  Type :: InterruptEventType
  InData :: string

record OpenAPIStreamRunFlowResponse =
  ID :: string
  Event :: string
  DebugUrl :: "string option"
  ErrorCode :: "ErrCode option"
  ErrorMessage :: "string option"
  InterruptData :: "Interrupt option"
  NodeTitle :: "string option"
  Content :: "string option"
  ContentType :: "string option"
  NodeIsFinish :: "bool option"
  NodeType :: "string option"
  NodeID :: "string option"
  Token :: "int64 option"
  NodeSeqID :: "string option"

definition DoneEvent :: string where "DoneEvent = ''Done''"
definition MessageEvent :: string where "MessageEvent = ''Message''"
definition ErrEvent :: string where "ErrEvent = ''Error''"
definition InterruptEventName :: string where "InterruptEventName = ''Interrupt''"

text \<open>The variables that the closure returned by \<open>convertStreamRunEvent\<close> captures.\<close>

record ConvState =
  messageID :: int64
  executeID :: int64
  spaceID :: int64
  nodeID2Seq :: "string \<rightharpoonup> int64"

definition initConvState :: ConvState where
  "initConvState = \<lparr> messageID = 0, executeID = 0, spaceID = 0, nodeID2Seq = Map.empty \<rparr>"

text \<open>What one call of the closure gives: a response with a \<open>nil\<close> error (\<open>Emit\<close>), a \<open>nil\<close>
  response with a \<open>nil\<close> error (\<open>EmitNil\<close>), \<open>schema.ErrNoValue\<close> (\<open>NoValue\<close>), or a panic.\<close>

datatype ConvertResult =
    Emit OpenAPIStreamRunFlowResponse
  | EmitNil
  | NoValue
  | ConvertPanic error

definition emptyResponse :: OpenAPIStreamRunFlowResponse where
  "emptyResponse =
     \<lparr> ID = [], Event = [], DebugUrl = None, ErrorCode = None, ErrorMessage = None,
       InterruptData = None, NodeTitle = None, Content = None, ContentType = None,
       NodeIsFinish = None, NodeType = None, NodeID = None, Token = None, NodeSeqID = None \<rparr>"

text \<open>The deferred \<open>if err == nil { messageID++ }\<close> also runs while a panic unwinds, with
  \<open>err\<close> still \<open>nil\<close>.\<close>

definition bumpMessageID :: "ConvState \<Rightarrow> ConvState" where
  "bumpMessageID st = st\<lparr>messageID := messageID st + 1\<rparr>"

definition convertStateMessage ::
  "Lib \<Rightarrow> int64 \<Rightarrow> ConvState \<Rightarrow> StateMessage \<Rightarrow> ConvertResult \<times> ConvState" where
  "convertStateMessage lib workflowID st sm =
     (if 0 < sint (executeID st) \<and> executeID st \<noteq> StateMessage.ExecuteID sm then (NoValue, st)
      else
        (let debugUrl = Some (GetWorkflowDebugURL lib workflowID (spaceID st) (executeID st)) in
         case StateMessage.Status sm of
           WorkflowSuccess \<Rightarrow>
             (Emit (emptyResponse\<lparr> OpenAPIStreamRunFlowResponse.ID := FormatInt (messageID st),
                                    Event := DoneEvent,
                                    DebugUrl := debugUrl \<rparr>),
              bumpMessageID st)
         | WorkflowFailed \<Rightarrow>
             (case Option.bind (LastError sm) asWorkflowError of
                Some (WorkflowError code msg cause) \<Rightarrow>
                  (Emit (emptyResponse\<lparr> OpenAPIStreamRunFlowResponse.ID := FormatInt (messageID st),
                                         Event := ErrEvent,
                                         DebugUrl := debugUrl,
                                         ErrorCode := Some code,
                                         ErrorMessage := Some msg \<rparr>),
                   bumpMessageID st)
              | _ \<Rightarrow>
                  (ConvertPanic (ErrorString ''stream run last error is not a WorkflowError''),
                   bumpMessageID st))
         | WorkflowCancel \<Rightarrow>
             (case Option.bind (LastError sm) asWorkflowError of
                Some (WorkflowError code msg cause) \<Rightarrow>
                  (Emit (emptyResponse\<lparr> OpenAPIStreamRunFlowResponse.ID := FormatInt (messageID st),
                                         Event := ErrEvent,
                                         DebugUrl := debugUrl,
                                         ErrorCode := Some code,
                                         ErrorMessage := Some msg \<rparr>),
                   bumpMessageID st)
              | _ \<Rightarrow>
                  (ConvertPanic (ErrorString ''stream run last error is not a WorkflowError''),
                   bumpMessageID st))
         | WorkflowInterrupted \<Rightarrow>
             (case StateMessage.InterruptEvent sm of
                None \<Rightarrow>
                  (ConvertPanic (RuntimeError ''invalid memory address or nil pointer dereference''),
                   bumpMessageID st)
              | Some ie \<Rightarrow>
                  (case ToolInterruptEvent ie of
                     None \<Rightarrow>
                       (Emit (emptyResponse\<lparr> OpenAPIStreamRunFlowResponse.ID := FormatInt (messageID st),
                                              Event := InterruptEventName,
                                              DebugUrl := debugUrl,
                                              OpenAPIStreamRunFlowResponse.InterruptData := Some
                                                \<lparr> EventID = FormatInt (executeID st) @ ''/'' @ FormatInt (InterruptEvent.ID ie),
                                                  Type = InterruptEvent.EventType ie,
                                                  InData = InterruptEvent.InterruptData ie \<rparr> \<rparr>),
                        bumpMessageID st)
                   | Some t \<Rightarrow>
                       (Emit (emptyResponse\<lparr> OpenAPIStreamRunFlowResponse.ID := FormatInt (messageID st),
                                              Event := InterruptEventName,
                                              DebugUrl := debugUrl,
                                              OpenAPIStreamRunFlowResponse.InterruptData := Some
                                                \<lparr> EventID = FormatInt (executeID st) @ ''/'' @ FormatInt (InterruptEvent.ID ie),
                                                  Type = ToolInterruptEvent.EventType t,
                                                  InData = ToolInterruptEvent.InterruptData t \<rparr> \<rparr>),
                        bumpMessageID st)))
         | WorkflowRunning \<Rightarrow>
             (NoValue, st\<lparr>executeID := StateMessage.ExecuteID sm, spaceID := StateMessage.SpaceID sm\<rparr>)
         | WorkflowStatusOther n \<Rightarrow> (NoValue, st)))"

definition convertDataMessage ::
  "Lib \<Rightarrow> ConvState \<Rightarrow> DataMessage \<Rightarrow> ConvertResult \<times> ConvState" where
  "convertDataMessage lib st dm =
     (if DataMessage.Type dm \<noteq> Answer then (NoValue, st)
      else if 0 < sint (executeID st) \<and> executeID st \<noteq> DataMessage.ExecuteID dm then (NoValue, st)
      else
        (let seq = (case nodeID2Seq st (DataMessage.NodeID dm) of None \<Rightarrow> 0 | Some n \<Rightarrow> n);
             res = emptyResponse\<lparr> OpenAPIStreamRunFlowResponse.ID := FormatInt (messageID st),
                                   Event := MessageEvent,
                                   OpenAPIStreamRunFlowResponse.NodeTitle := Some (DataMessage.NodeTitle dm),
                                   Content := Some (DataMessage.Content dm),
                                   ContentType := Some ''text'',
                                   NodeIsFinish := Some (Last dm),
                                   OpenAPIStreamRunFlowResponse.NodeType :=
                                     Some (GetDisplayKey lib (DataMessage.NodeType dm)),
                                   OpenAPIStreamRunFlowResponse.NodeID := Some (DataMessage.NodeID dm),
                                   Token := map_option
                                     (\<lambda>u. TokenUsage.InputTokens u + TokenUsage.OutputTokens u) (Usage dm),
                                   NodeSeqID := Some (FormatInt seq) \<rparr>
         in (Emit res,
             bumpMessageID (st\<lparr>nodeID2Seq := (nodeID2Seq st)(DataMessage.NodeID dm \<mapsto> seq + 1)\<rparr>))))"

text \<open>The closure that \<open>convertStreamRunEvent(workflowID)\<close> returns, as a step on the
  captured variables.\<close>

definition convertStreamRunEvent ::
  "Lib \<Rightarrow> int64 \<Rightarrow> ConvState \<Rightarrow> Message \<Rightarrow> ConvertResult \<times> ConvState" where
  "convertStreamRunEvent lib workflowID st msg =
     (case StateMessage msg of
        Some sm \<Rightarrow> convertStateMessage lib workflowID st sm
      | None \<Rightarrow>
          (case DataMessage msg of
             Some dm \<Rightarrow> convertDataMessage lib st dm
           | None \<Rightarrow> (EmitNil, bumpMessageID st)))"

text \<open>The converter fed with a message sequence, as the consumer of the stream drives it:
  the results of the calls in order, stopping after a panic (nothing is converted once the
  panic unwinds the consumer).\<close>

fun convertAll :: "Lib \<Rightarrow> int64 \<Rightarrow> ConvState \<Rightarrow> Message list \<Rightarrow> ConvertResult list \<times> ConvState" where
  "convertAll lib workflowID st [] = ([], st)"
| "convertAll lib workflowID st (msg # rest) =
     (case convertStreamRunEvent lib workflowID st msg of
        (ConvertPanic p, st') \<Rightarrow> ([ConvertPanic p], st')
      | (r, st') \<Rightarrow>
          (case convertAll lib workflowID st' rest of (rs, st'') \<Rightarrow> (r # rs, st'')))"

section \<open>The execute operations\<close>

datatype Locator = FromDraft | FromSpecificVersion | FromLatestVersion
datatype ExecuteMode = ExecuteModeDebug | ExecuteModeNodeDebug | ExecuteModeRelease
datatype TaskType = TaskTypeForeground | TaskTypeBackground
datatype SyncPattern = SyncPatternSync | SyncPatternAsync | SyncPatternStream
datatype BizType = BizTypeWorkflow | BizTypeAgent
datatype TerminatePlan = ReturnVariables | UseAnswerContent

text \<open>\<open>map[string]any\<close> input of an execution: a value is kept as its text.\<close>

type_synonym Params = "string \<rightharpoonup> string"

text \<open>Modelled from the spec: \<open>workflowModel.ExecuteConfig\<close> and its enumerations (not part
  of the sources at hand). A field that an operation leaves out of the struct
  literal has Go's zero value: \<open>None\<close> for \<open>From\<close>, \<open>TaskType\<close> and \<open>SyncPattern\<close>.\<close>

record ExecuteConfig =
  ID :: int64
  From :: "Locator option"
  Version :: string
  CommitID :: string
  Operator :: int64
  Mode :: ExecuteMode
  AppID :: "int64 option"
  AgentID :: "int64 option"
  ConnectorID :: int64
  ConnectorUID :: string
  TaskType :: "TaskType option"
  SyncPattern :: "SyncPattern option"
  InputFailFast :: bool
  BizType :: BizType
  Cancellable :: bool

record ResumeRequest =
  ExecuteID :: int64
  EventID :: int64
  ResumeData :: string

record ApiKeyInfo =
  UserID :: int64
  ConnectorID :: int64

record WorkflowMeta =
  ID :: int64
  SpaceID :: int64
  LatestPublishedVersion :: "string option"

text \<open>
  The collaborators of the application service: the request context (the user id that
  \<open>ctxutil.MustGetUIDFromCtx\<close> demands, the API key info), the user's spaces, and the
  workflow domain service. The calls that create or continue an execution act on the
  domain's state \<open>'w\<close> and return it changed; the others only read.
\<close>

record 'w Svc =
  ctxUID :: "int64 option"
  apiAuth :: "ApiKeyInfo option"
  GetUserSpaceList :: "int64 \<Rightarrow> error + int64 list"
  Get :: "int64 \<Rightarrow> error + WorkflowMeta"
  GetExecution :: "WorkflowExecution \<Rightarrow> bool \<Rightarrow> error + WorkflowExecution"
  AsyncExecute :: "ExecuteConfig \<Rightarrow> Params \<Rightarrow> 'w \<Rightarrow> (error + int64) \<times> 'w"
  AsyncExecuteNode :: "string \<Rightarrow> ExecuteConfig \<Rightarrow> Params \<Rightarrow> 'w \<Rightarrow> (error + int64) \<times> 'w"
  SyncExecute ::
    "ExecuteConfig \<Rightarrow> Params \<Rightarrow> 'w \<Rightarrow> (error + WorkflowExecution \<times> TerminatePlan) \<times> 'w"
  StreamExecute :: "ExecuteConfig \<Rightarrow> Params \<Rightarrow> 'w \<Rightarrow> (error + Message list) \<times> 'w"
  StreamResume :: "ResumeRequest \<Rightarrow> ExecuteConfig \<Rightarrow> 'w \<Rightarrow> (error + Message list) \<times> 'w"
  UnmarshalParameters :: "string \<Rightarrow> error + Params"
  MarshalAnswerOutput :: "string \<Rightarrow> error + string"
  CozeConnectorID :: int64
  WebSDKConnectorID :: int64

definition nilDereference :: error where
  "nilDereference = RuntimeError ''invalid memory address or nil pointer dereference''"

definition MustGetUIDFromCtx :: "'w Svc \<Rightarrow> int64 result" where
  "MustGetUIDFromCtx svc =
     (case ctxUID svc of None \<Rightarrow> Panic (ErrorString ''mustGetUIDFromCtx: uid is nil'') | Some u \<Rightarrow> Return u)"

definition GetApiAuthFromCtx :: "'w Svc \<Rightarrow> ApiKeyInfo result" where
  "GetApiAuthFromCtx svc = (case apiAuth svc of None \<Rightarrow> Panic nilDereference | Some a \<Rightarrow> Return a)"

definition checkUserSpace :: "'w Svc \<Rightarrow> int64 \<Rightarrow> int64 \<Rightarrow> unit result" where
  "checkUserSpace svc uid sid =
     (case GetUserSpaceList svc uid of
        Inl err \<Rightarrow> Fail err
      | Inr spaces \<Rightarrow>
          if sid \<in> set spaces then Return ()
          else Fail (ErrorString (''user '' @ FormatInt uid @ '' does not have access to space ''
                                  @ FormatInt sid)))"

text \<open>\<open>if req.IsSetX() { x = ptr.Of(mustParseInt64(req.GetX())) }\<close>\<close>

definition parseIfSet :: "string option \<Rightarrow> int64 option result" where
  "parseIfSet p = (case p of None \<Rightarrow> Return None | Some s \<Rightarrow> bindR (mustParseInt64 s) (\<lambda>i. Return (Some i)))"

definition bothIDsError :: error where
  "bothIDsError = ErrorString ''project_id and bot_id cannot be set at the same time''"

record WorkFlowTestRunRequest =
  WorkflowID :: string
  SpaceID :: "string option"
  ProjectID :: "string option"
  BotID :: "string option"
  CommitID :: "string option"
  Input :: Params

record WorkFlowTestRunData =
  WorkflowID :: string
  ExecuteID :: string

text \<open>\<open>TestRun\<close> up to the config literal (lines 515 to 543): the user id, the space
  check, the two optional ids, the workflow id. Each \<open>mustParseInt64\<close> may panic.\<close>

definition testRunConfig :: "'w Svc \<Rightarrow> WorkFlowTestRunRequest \<Rightarrow> ExecuteConfig result" where
  "testRunConfig svc req =
     bindR (MustGetUIDFromCtx svc) (\<lambda>uID.
     bindR (mustParseInt64 (FromOrDefault (WorkFlowTestRunRequest.SpaceID req) [])) (\<lambda>sid.
     bindR (checkUserSpace svc uID sid) (\<lambda>_.
     bindR (parseIfSet (WorkFlowTestRunRequest.ProjectID req)) (\<lambda>appID.
     bindR (parseIfSet (WorkFlowTestRunRequest.BotID req)) (\<lambda>agentID.
     bindR (mustParseInt64 (WorkFlowTestRunRequest.WorkflowID req)) (\<lambda>wfID.
     Return \<lparr> ExecuteConfig.ID = wfID, From = Some FromDraft, Version = [],
              CommitID = FromOrDefault (WorkFlowTestRunRequest.CommitID req) [],
              Operator = uID, Mode = ExecuteModeDebug, AppID = appID, AgentID = agentID,
              ConnectorID = CozeConnectorID svc, ConnectorUID = FormatInt uID,
              TaskType = Some TaskTypeForeground, SyncPattern = Some SyncPatternAsync,
              InputFailFast = False, BizType = BizTypeWorkflow, Cancellable = True \<rparr>))))))"

text \<open>The body of \<open>TestRun\<close>: the config, the check that not both ids are set, the call of
  the domain; then the operation with its deferred recover.\<close>

definition TestRunBody ::
  "'w Svc \<Rightarrow> WorkFlowTestRunRequest \<Rightarrow> 'w \<Rightarrow> WorkFlowTestRunData result \<times> 'w" where
  "TestRunBody svc req w =
     (case testRunConfig svc req of
        Panic p \<Rightarrow> (Panic p, w)
      | Fail e \<Rightarrow> (Fail e, w)
      | Return exeCfg \<Rightarrow>
          if ExecuteConfig.AppID exeCfg \<noteq> None \<and> AgentID exeCfg \<noteq> None then (Fail bothIDsError, w)
          else
            (case AsyncExecute svc exeCfg (WorkFlowTestRunRequest.Input req) w of
               (Inl err, w') \<Rightarrow> (Fail err, w')
             | (Inr exeID, w') \<Rightarrow>
                 (Return \<lparr> WorkFlowTestRunData.WorkflowID = WorkFlowTestRunRequest.WorkflowID req,
                           ExecuteID = FormatInt exeID \<rparr>, w')))"

definition TestRun ::
  "'w Svc \<Rightarrow> WorkFlowTestRunRequest \<Rightarrow> 'w \<Rightarrow> (error + WorkFlowTestRunData) \<times> 'w" where
  "TestRun svc req w =
     (case TestRunBody svc req w of (r, w') \<Rightarrow> (deferRecover ErrWorkflowExecuteFail r, w'))"

record WorkflowNodeDebugV2Request =
  WorkflowID :: string
  NodeID :: string
  SpaceID :: "string option"
  ProjectID :: "string option"
  BotID :: "string option"
  Input :: Params
  Batch :: Params
  Setting :: Params

record WorkflowNodeDebugV2Data =
  WorkflowID :: string
  NodeID :: string
  ExecuteID :: string

definition nodeDebugConfig :: "'w Svc \<Rightarrow> WorkflowNodeDebugV2Request \<Rightarrow> ExecuteConfig result" where
  "nodeDebugConfig svc req =
     bindR (MustGetUIDFromCtx svc) (\<lambda>uID.
     bindR (mustParseInt64 (FromOrDefault (WorkflowNodeDebugV2Request.SpaceID req) [])) (\<lambda>sid.
     bindR (checkUserSpace svc uID sid) (\<lambda>_.
     bindR (parseIfSet (WorkflowNodeDebugV2Request.ProjectID req)) (\<lambda>appID.
     bindR (parseIfSet (WorkflowNodeDebugV2Request.BotID req)) (\<lambda>agentID.
     bindR (mustParseInt64 (WorkflowNodeDebugV2Request.WorkflowID req)) (\<lambda>wfID.
     Return \<lparr> ExecuteConfig.ID = wfID, From = Some FromDraft, Version = [], CommitID = [],
              Operator = uID, Mode = ExecuteModeNodeDebug, AppID = appID, AgentID = agentID,
              ConnectorID = CozeConnectorID svc, ConnectorUID = FormatInt uID,
              TaskType = Some TaskTypeForeground, SyncPattern = Some SyncPatternAsync,
              InputFailFast = False, BizType = BizTypeWorkflow, Cancellable = True \<rparr>))))))"

text \<open>The body of \<open>NodeDebug\<close>; the merged input takes \<open>Input\<close>, then \<open>Batch\<close>, then
  \<open>Setting\<close>, a later map overwriting an earlier key.\<close>

definition NodeDebugBody ::
  "'w Svc \<Rightarrow> WorkflowNodeDebugV2Request \<Rightarrow> 'w \<Rightarrow> WorkflowNodeDebugV2Data result \<times> 'w" where
  "NodeDebugBody svc req w =
     (case nodeDebugConfig svc req of
        Panic p \<Rightarrow> (Panic p, w)
      | Fail e \<Rightarrow> (Fail e, w)
      | Return exeCfg \<Rightarrow>
          if ExecuteConfig.AppID exeCfg \<noteq> None \<and> AgentID exeCfg \<noteq> None then (Fail bothIDsError, w)
          else
            (let mergedInput = WorkflowNodeDebugV2Request.Input req
                                 ++ WorkflowNodeDebugV2Request.Batch req
                                 ++ Setting req
             in case AsyncExecuteNode svc (WorkflowNodeDebugV2Request.NodeID req) exeCfg mergedInput w of
                  (Inl err, w') \<Rightarrow> (Fail err, w')
                | (Inr exeID, w') \<Rightarrow>
                    (Return \<lparr> WorkflowNodeDebugV2Data.WorkflowID = WorkflowNodeDebugV2Request.WorkflowID req,
                              NodeID = WorkflowNodeDebugV2Request.NodeID req,
                              ExecuteID = FormatInt exeID \<rparr>, w')))"

definition NodeDebug ::
  "'w Svc \<Rightarrow> WorkflowNodeDebugV2Request \<Rightarrow> 'w \<Rightarrow> (error + WorkflowNodeDebugV2Data) \<times> 'w" where
  "NodeDebug svc req w =
     (case NodeDebugBody svc req w of (r, w') \<Rightarrow> (deferRecover ErrWorkflowExecuteFail r, w'))"

record OpenAPIRunFlowRequest =
  WorkflowID :: string
  Parameters :: "string option"
  AppID :: "string option"
  ProjectID :: "string option"
  BotID :: "string option"
  ConnectorID :: "string option"
  IsAsync :: "bool option"

record OpenAPIRunFlowResponse =
  Data :: "string option"
  ExecuteID :: "string option"
  DebugUrl :: "string option"
  Token :: "int64 option"
  Cost :: "string option"

text \<open>What \<open>OpenAPIRun\<close> and \<open>OpenAPIStreamRun\<close> do up to the config literal (lines 1660
  to 1718 and 1511 to 1571, the same text but for the two fields given as arguments): the
  parameters, the published version, the space check, the ids, the connector.\<close>

definition openAPIConfig ::
  "'w Svc \<Rightarrow> OpenAPIRunFlowRequest \<Rightarrow> TaskType option \<Rightarrow> SyncPattern option
     \<Rightarrow> (WorkflowMeta \<times> ExecuteConfig \<times> Params) result" where
  "openAPIConfig svc req taskType syncPattern =
     bindR (GetApiAuthFromCtx svc) (\<lambda>apiKeyInfo.
     bindR (case Parameters req of
              None \<Rightarrow> Return Map.empty
            | Some text \<Rightarrow>
                (case UnmarshalParameters svc text of
                   Inl err \<Rightarrow> Fail (WrapError ErrInvalidParameter err)
                 | Inr ps \<Rightarrow> Return ps)) (\<lambda>parameters.
     bindR (mustParseInt64 (OpenAPIRunFlowRequest.WorkflowID req)) (\<lambda>wfID.
     bindR (liftE (Get svc wfID)) (\<lambda>meta.
     case LatestPublishedVersion meta of
       None \<Rightarrow> Fail (NewError ErrWorkflowNotPublished)
     | Some version \<Rightarrow>
         bindR (checkUserSpace svc (UserID apiKeyInfo) (WorkflowMeta.SpaceID meta)) (\<lambda>_.
         bindR (case OpenAPIRunFlowRequest.AppID req of
                  Some a \<Rightarrow> parseIfSet (Some a)
                | None \<Rightarrow> parseIfSet (OpenAPIRunFlowRequest.ProjectID req)) (\<lambda>appID.
         bindR (parseIfSet (OpenAPIRunFlowRequest.BotID req)) (\<lambda>agentID.
         bindR (case OpenAPIRunFlowRequest.ConnectorID req of
                  None \<Rightarrow> Return 0
                | Some c \<Rightarrow> mustParseInt64 c) (\<lambda>requested.
         let connectorID = (if requested \<noteq> WebSDKConnectorID svc
                            then ApiKeyInfo.ConnectorID apiKeyInfo else requested)
         in Return (meta,
                    \<lparr> ExecuteConfig.ID = WorkflowMeta.ID meta, From = Some FromSpecificVersion,
                      Version = version, CommitID = [], Operator = UserID apiKeyInfo,
                      Mode = ExecuteModeRelease, AppID = appID, AgentID = agentID,
                      ConnectorID = connectorID, ConnectorUID = FormatInt (UserID apiKeyInfo),
                      TaskType = taskType, SyncPattern = syncPattern,
                      InputFailFast = True, BizType = BizTypeWorkflow, Cancellable = False \<rparr>,
                    parameters)))))))))"

text \<open>The config, then the check that not both ids are set (lines 1720 to 1722 and 1573 to
  1575).\<close>

definition openAPIPrepare ::
  "'w Svc \<Rightarrow> OpenAPIRunFlowRequest \<Rightarrow> TaskType option \<Rightarrow> SyncPattern option
     \<Rightarrow> (WorkflowMeta \<times> ExecuteConfig \<times> Params) result" where
  "openAPIPrepare svc req taskType syncPattern =
     bindR (openAPIConfig svc req taskType syncPattern) (\<lambda>(meta, exeCfg, parameters).
       if ExecuteConfig.AppID exeCfg \<noteq> None \<and> AgentID exeCfg \<noteq> None then Fail bothIDsError
       else Return (meta, exeCfg, parameters))"

text \<open>The end of the synchronous path of \<open>OpenAPIRun\<close> (lines 1745 to 1773), once
  \<open>SyncExecute\<close> has returned the execution and the termination plan.\<close>

definition syncRunResponse ::
  "Lib \<Rightarrow> 'w Svc \<Rightarrow> WorkflowMeta \<Rightarrow> WorkflowExecution \<Rightarrow> TerminatePlan
     \<Rightarrow> OpenAPIRunFlowResponse result" where
  "syncRunResponse lib svc meta wfExe tPlan =
     (if WorkflowExecution.Status wfExe = WorkflowInterrupted then Fail (NewError ErrInterruptNotSupported)
      else
        bindR (if tPlan = ReturnVariables then Return (WorkflowExecution.Output wfExe)
               else (case WorkflowExecution.Output wfExe of
                       None \<Rightarrow> Panic nilDereference
                     | Some out \<Rightarrow>
                         (case MarshalAnswerOutput svc out of
                            Inl err \<Rightarrow> Fail err
                          | Inr answerOutputStr \<Rightarrow> Return (Some answerOutputStr)))) (\<lambda>data.
        case WorkflowExecution.TokenInfo wfExe of
          None \<Rightarrow> Panic nilDereference
        | Some tokenInfo \<Rightarrow>
            Return \<lparr> Data = data,
                     ExecuteID = Some (FormatInt (WorkflowExecution.ID wfExe)),
                     DebugUrl = Some (GetWorkflowDebugURL lib (WorkflowMeta.ID meta)
                                        (WorkflowExecution.SpaceID wfExe) (WorkflowExecution.ID wfExe)),
                     Token = Some (TokenUsage.InputTokens tokenInfo + TokenUsage.OutputTokens tokenInfo),
                     Cost = Some ''0.00000'' \<rparr>))"

definition OpenAPIRunBody ::
  "Lib \<Rightarrow> 'w Svc \<Rightarrow> OpenAPIRunFlowRequest \<Rightarrow> 'w \<Rightarrow> OpenAPIRunFlowResponse result \<times> 'w" where
  "OpenAPIRunBody lib svc req w =
     (case openAPIPrepare svc req None None of
        Panic p \<Rightarrow> (Panic p, w)
      | Fail e \<Rightarrow> (Fail e, w)
      | Return (meta, exeCfg0, parameters) \<Rightarrow>
          if FromOrDefault (IsAsync req) False then
            (case AsyncExecute svc
                    (exeCfg0\<lparr>SyncPattern := Some SyncPatternAsync, TaskType := Some TaskTypeBackground\<rparr>)
                    parameters w of
               (Inl err, w') \<Rightarrow> (Fail err, w')
             | (Inr exeID, w') \<Rightarrow>
                 (Return \<lparr> Data = None,
                           ExecuteID = Some (FormatInt exeID),
                           DebugUrl = Some (GetWorkflowDebugURL lib (WorkflowMeta.ID meta)
                                              (WorkflowMeta.SpaceID meta) exeID),
                           Token = None, Cost = None \<rparr>, w'))
          else
            (case SyncExecute svc
                    (exeCfg0\<lparr>SyncPattern := Some SyncPatternSync, TaskType := Some TaskTypeForeground\<rparr>)
                    parameters w of
               (Inl err, w') \<Rightarrow> (Fail err, w')
             | (Inr (wfExe, tPlan), w') \<Rightarrow> (syncRunResponse lib svc meta wfExe tPlan, w')))"

definition OpenAPIRun ::
  "Lib \<Rightarrow> 'w Svc \<Rightarrow> OpenAPIRunFlowRequest \<Rightarrow> 'w \<Rightarrow> (error + OpenAPIRunFlowResponse) \<times> 'w" where
  "OpenAPIRun lib svc req w =
     (case OpenAPIRunBody lib svc req w of (r, w') \<Rightarrow> (deferRecover ErrWorkflowExecuteFail r, w'))"

section \<open>The streams\<close>

text \<open>
  What \<open>schema.StreamReaderWithConvert(sr, convert)\<close> of the stream library returns: the messages that the
  domain's stream \<open>sr\<close> will deliver, and the converter closure with its captured
  variables. Nothing is converted when the reader is built.
\<close>

record ConvertedStream =
  source :: "Message list"
  convWorkflowID :: int64
  convState :: ConvState

datatype RecvResult =
    RecvEvent "OpenAPIStreamRunFlowResponse option"
  | RecvEOF
  | RecvPanic error

text \<open>
  \<open>Recv\<close> on the converted reader, called by the consumer of the stream after the
  operation has returned: it takes the next message of the source and calls the closure on
  it; \<open>ErrNoValue\<close> makes it go on with the next message, the end of the source is
  \<open>io.EOF\<close>. No deferred function of the service is on the stack of this call, so a panic
  of the closure unwinds into the consumer.
\<close>

fun recvFrom :: "Lib \<Rightarrow> int64 \<Rightarrow> ConvState \<Rightarrow> Message list \<Rightarrow> RecvResult \<times> ConvState \<times> Message list" where
  "recvFrom lib workflowID st [] = (RecvEOF, st, [])"
| "recvFrom lib workflowID st (msg # rest) =
     (case convertStreamRunEvent lib workflowID st msg of
        (NoValue, st') \<Rightarrow> recvFrom lib workflowID st' rest
      | (Emit ev, st') \<Rightarrow> (RecvEvent (Some ev), st', rest)
      | (EmitNil, st') \<Rightarrow> (RecvEvent None, st', rest)
      | (ConvertPanic p, st') \<Rightarrow> (RecvPanic p, st', rest))"

definition Recv :: "Lib \<Rightarrow> ConvertedStream \<Rightarrow> RecvResult \<times> ConvertedStream" where
  "Recv lib sr =
     (case recvFrom lib (convWorkflowID sr) (convState sr) (source sr) of
        (r, st', rest) \<Rightarrow> (r, sr\<lparr>source := rest, convState := st'\<rparr>))"

definition OpenAPIStreamRunBody ::
  "'w Svc \<Rightarrow> OpenAPIRunFlowRequest \<Rightarrow> 'w \<Rightarrow> ConvertedStream result \<times> 'w" where
  "OpenAPIStreamRunBody svc req w =
     (case openAPIPrepare svc req (Some TaskTypeForeground) (Some SyncPatternStream) of
        Panic p \<Rightarrow> (Panic p, w)
      | Fail e \<Rightarrow> (Fail e, w)
      | Return (meta, exeCfg, parameters) \<Rightarrow>
          (case StreamExecute svc exeCfg parameters w of
             (Inl err, w') \<Rightarrow> (Fail err, w')
           | (Inr sr, w') \<Rightarrow>
               (Return \<lparr> source = sr, convWorkflowID = WorkflowMeta.ID meta,
                         convState = initConvState \<rparr>, w')))"

definition OpenAPIStreamRun ::
  "'w Svc \<Rightarrow> OpenAPIRunFlowRequest \<Rightarrow> 'w \<Rightarrow> (error + ConvertedStream) \<times> 'w" where
  "OpenAPIStreamRun svc req w =
     (case OpenAPIStreamRunBody svc req w of (r, w') \<Rightarrow> (deferRecover ErrWorkflowExecuteFail r, w'))"

record OpenAPIStreamResumeFlowRequest =
  EventID :: string
  WorkflowID :: string
  ResumeData :: string
  ConnectorID :: "string option"





section \<open>GetProcess as an operation\<close>

record GetWorkflowProcessRequest =
  WorkflowID :: string
  SpaceID :: "string option"
  ExecuteID :: "string option"
  SubExecuteID :: "string option"

text \<open>The entity literal that \<open>GetProcess\<close> hands to \<open>GetExecution\<close> sets the ids and
  leaves every other field at its zero value.\<close>

definition queryEntity :: "int64 \<Rightarrow> int64 \<Rightarrow> int64 \<Rightarrow> WorkflowExecution" where
  "queryEntity exeID wfID rootID =
     \<lparr> WorkflowExecution.ID = exeID, WorkflowID = wfID, SpaceID = 0, RootExecutionID = rootID,
       Status = WorkflowStatusOther 0, Duration = 0, FailReason = None, LogID = [],
       TokenInfo = None, AppID = None, NodeExecutions = [], NodeCount = 0,
       InterruptEvents = [], Output = None \<rparr>"

text \<open>\<open>GetProcess\<close>: the space check, the fetch, and \<open>GetProcessData\<close> on the fetched
  entity, under the deferred recover of the operation. \<open>ks\<close> is the order in which the
  final \<open>range\<close> over the map of cached parent shells runs.\<close>

definition GetProcess ::
  "Lib \<Rightarrow> 'w Svc \<Rightarrow> GetWorkflowProcessRequest \<Rightarrow> string list \<Rightarrow> error + GetWorkFlowProcessData" where
  "GetProcess lib svc req ks =
     deferRecover ErrWorkflowOperationFail
       (bindR (MustGetUIDFromCtx svc) (\<lambda>uID.
        bindR (mustParseInt64 (FromOrDefault (GetWorkflowProcessRequest.SpaceID req) [])) (\<lambda>sid.
        bindR (checkUserSpace svc uID sid) (\<lambda>_.
        bindR (case SubExecuteID req of
                 None \<Rightarrow>
                   bindR (mustParseInt64 (FromOrDefault (GetWorkflowProcessRequest.ExecuteID req) [])) (\<lambda>exeID.
                   bindR (mustParseInt64 (GetWorkflowProcessRequest.WorkflowID req)) (\<lambda>wfID.
                   Return (queryEntity exeID wfID 0)))
               | Some sub \<Rightarrow>
                   bindR (mustParseInt64 sub) (\<lambda>subID.
                   bindR (mustParseInt64 (GetWorkflowProcessRequest.WorkflowID req)) (\<lambda>wfID.
                   bindR (mustParseInt64 (FromOrDefault (GetWorkflowProcessRequest.ExecuteID req) [])) (\<lambda>exeID.
                   Return (queryEntity subID wfID exeID))))) (\<lambda>query.
        bindR (liftE (GetExecution svc query True)) (\<lambda>wfExeEntity.
        GetProcessData lib wfExeEntity ks))))))"

section \<open>Concrete collaborators and inputs for the examples\<close>

definition exampleMarshalNodeResults :: "NodeResult option list \<Rightarrow> error + string" where
  "exampleMarshalNodeResults xs =
     Inr (''['' @ concat (map (\<lambda>x. case x of None \<Rightarrow> ''null;'' | Some r \<Rightarrow> NodeId r @ '';'') xs) @ '']'')"

definition exampleLib :: Lib where
  "exampleLib =
     \<lparr> GetDisplayKey = (\<lambda>t. case t of NodeTypeBatch \<Rightarrow> ''28'' | NodeTypeExit \<Rightarrow> ''2''
                                 | NodeTypeOther s \<Rightarrow> s),
       IsGeneratedNodeForBatchMode = (\<lambda>key parentKey. key = parentKey @ ''_inner''),
       SprintfSeconds = (\<lambda>d. FormatInt d @ ''ns''),
       SprintfRate = (\<lambda>a b. FormatInt a @ ''/'' @ FormatInt (ucast b)),
       MarshalNodeResults = exampleMarshalNodeResults,
       MarshalNodeExtra = (\<lambda>x. Inr (FormatInt (NodeExtra.SubExecuteID x))),
       nodeIconURLCache = Map.empty,
       ExitNodeKey = ''900001'',
       NodeTemplateType_Start = ''1'',
       NodeTemplateType_End = ''2'',
       LevelError = ''Error'',
       GetWorkflowDebugURL = (\<lambda>wfID sid exeID. FormatInt wfID @ ''/'' @ FormatInt exeID) \<rparr>"

text \<open>A batch-mode node \<open>100001\<close> with two iterations: its parent shell, and the inner
  payload reported by the generated node \<open>100001_inner\<close>.\<close>

definition exampleIteration :: "int64 \<Rightarrow> NodeExecution" where
  "exampleIteration i =
     NodeExecution ''100001_inner'' ''llm'' (NodeTypeOther ''3'') NodeSuccess None None (Some ''out'')
       None None 0 None (Some ''100001'') i None [] None None 7"

definition exampleInner :: NodeExecution where
  "exampleInner =
     NodeExecution ''100001_inner'' ''llm'' (NodeTypeOther ''3'') NodeSuccess None None None
       None None 0 None (Some ''100001'') 0 None
       [Some (exampleIteration 0), Some (exampleIteration 1)] None None 7"

definition exampleParent :: NodeExecution where
  "exampleParent =
     NodeExecution ''100001'' ''llm batch'' NodeTypeBatch NodeSuccess None (Some ''in'') (Some ''out'')
       None None 0 None None 0 None [] None None 7"

definition exampleExecution :: "NodeExecution list \<Rightarrow> WorkflowExecution" where
  "exampleExecution nodeExes =
     \<lparr> WorkflowExecution.ID = 42, WorkflowID = 7, SpaceID = 1, RootExecutionID = 0,
       Status = WorkflowSuccess, Duration = 0, FailReason = None, LogID = [],
       TokenInfo = None, AppID = None, NodeExecutions = nodeExes, NodeCount = 1,
       InterruptEvents = [], Output = None \<rparr>"

section \<open>Vocabulary of the statements\<close>

text \<open>The value a body returned, if it returned one.\<close>

definition returned :: "'a result \<Rightarrow> 'a option" where
  "returned r = (case r of Return x \<Rightarrow> Some x | Fail e \<Rightarrow> None | Panic p \<Rightarrow> None)"

text \<open>Of each listed node result: its id, type, batch flag and batch array.\<close>

definition listedBatchInfo ::
  "GetWorkFlowProcessData result \<Rightarrow> (string \<times> string \<times> bool option \<times> string option) list" where
  "listedBatchInfo r =
     (case r of
        Return resp \<Rightarrow>
          map (\<lambda>nr. (NodeId nr, NodeResult.NodeType nr, IsBatch nr, NodeResult.Batch nr)) (NodeResults resp)
      | Fail e \<Rightarrow> []
      | Panic p \<Rightarrow> [])"

text \<open>Of a node result: its id, name, input and output, which a merged result should
  take from the parent shell, and its type, batch flag and batch array, which it should
  take from the inner payload.\<close>

definition mergeFields ::
  "NodeResult \<Rightarrow> string \<times> string \<times> string \<times> string \<times> string \<times> bool option \<times> string option" where
  "mergeFields nr =
     (NodeId nr, NodeResult.NodeName nr, NodeResult.Input nr, NodeResult.Output nr,
      NodeResult.NodeType nr, IsBatch nr, NodeResult.Batch nr)"

text \<open>The same fields of one node execution as converted, and of each listed node
  result.\<close>

definition convertedFields ::
  "Lib \<Rightarrow> NodeExecution
     \<Rightarrow> (string \<times> string \<times> string \<times> string \<times> string \<times> bool option \<times> string option) option" where
  "convertedFields lib e =
     (case convertNodeExecution lib e of Inl err \<Rightarrow> None | Inr nr \<Rightarrow> Some (mergeFields nr))"

definition listedFields ::
  "GetWorkFlowProcessData result
     \<Rightarrow> (string \<times> string \<times> string \<times> string \<times> string \<times> bool option \<times> string option) list" where
  "listedFields r =
     (case r of
        Return resp \<Rightarrow> map mergeFields (NodeResults resp)
      | Fail e \<Rightarrow> []
      | Panic p \<Rightarrow> [])"

text \<open>The two halves of the batch-mode node \<open>X\<close> among the node executions, as the loop of
  \<open>GetProcess\<close> tells them apart: the parent shell is the execution of type
  \<open>NodeTypeBatch\<close> with node id \<open>X\<close>; the inner payload is an execution of another type that
  carries \<open>IndexedExecutions\<close>, has parent \<open>X\<close> and a node id generated for \<open>X\<close>.\<close>

definition isParentShell :: "NodeExecution \<Rightarrow> string \<Rightarrow> bool" where
  "isParentShell e X \<longleftrightarrow> NodeExecution.NodeType e = NodeTypeBatch \<and> NodeExecution.NodeID e = X"

definition isInnerPayload :: "Lib \<Rightarrow> NodeExecution \<Rightarrow> string \<Rightarrow> bool" where
  "isInnerPayload lib e X \<longleftrightarrow>
     NodeExecution.NodeType e \<noteq> NodeTypeBatch \<and> IndexedExecutions e \<noteq> []
     \<and> ParentNodeID e = Some X \<and> IsGeneratedNodeForBatchMode lib (NodeExecution.NodeID e) X"

text \<open>The map of parent shells still cached when the loop over the node executions ends,
  which the final \<open>range\<close> of \<open>GetProcess\<close> runs over.\<close>

definition cachedParents :: "Lib \<Rightarrow> WorkflowExecution \<Rightarrow> (string \<rightharpoonup> NodeResult)" where
  "cachedParents lib wfExeEntity =
     (case nodeLoop lib initLoopState (NodeExecutions wfExeEntity) of
        Return st \<Rightarrow> batchNodeID2NodeResult st
      | Fail e \<Rightarrow> Map.empty
      | Panic p \<Rightarrow> Map.empty)"

text \<open>Invariant of the loop, for a node id \<open>X\<close> without parent shell and a set \<open>S\<close> of node
  ids: every result listed or cached so far bears an id in \<open>S\<close>, no parent shell is cached
  under \<open>X\<close>, and only the inner cache under \<open>X\<close> may hold anything else.\<close>

definition idInv :: "string \<Rightarrow> string set \<Rightarrow> LoopState \<Rightarrow> bool" where
  "idInv X S st \<longleftrightarrow>
     (\<forall>nr \<in> set (nodeResults st). NodeId nr \<in> S)
     \<and> batchNodeID2NodeResult st X = None
     \<and> (\<forall>k nr. batchNodeID2NodeResult st k = Some nr \<longrightarrow> NodeId nr \<in> S)
     \<and> (\<forall>k nr. k \<noteq> X \<longrightarrow> batchNodeID2InnerNodeResult st k = Some nr \<longrightarrow> NodeId nr \<in> S)"

text \<open>A parent shell of \<open>Y\<close> among the executions \<open>es\<close> is cached under \<open>Y\<close>, as converted.\<close>

definition shellCached :: "Lib \<Rightarrow> NodeExecution list \<Rightarrow> string \<Rightarrow> LoopState \<Rightarrow> bool" where
  "shellCached lib es Y st \<longleftrightarrow>
     (\<exists>p \<in> set es. \<exists>nr. isParentShell p Y \<and> convertNodeExecution lib p = Inr nr
        \<and> batchNodeID2NodeResult st Y = Some nr)"

text \<open>A second batch-mode node, \<open>200002\<close>, of which only the parent shell is reported, and
  an execution that holds it next to the lone inner payload of node \<open>100001\<close>.\<close>

definition exampleLoneShell :: NodeExecution where
  "exampleLoneShell =
     NodeExecution ''200002'' ''code batch'' NodeTypeBatch NodeRunning None (Some ''in'') None
       None None 0 None None 0 None [] None None 7"

definition exampleLoneHalves :: WorkflowExecution where
  "exampleLoneHalves = exampleExecution [exampleInner, exampleLoneShell]"

text \<open>An interrupted execution with two pending interrupt events: one raised by a
  question node, one by a tool inside an LLM node.\<close>

definition exampleInterrupted :: WorkflowExecution where
  "exampleInterrupted =
     \<lparr> WorkflowExecution.ID = 42, WorkflowID = 7, SpaceID = 1, RootExecutionID = 0,
       Status = WorkflowInterrupted, Duration = 0, FailReason = None, LogID = [],
       TokenInfo = None, AppID = None, NodeExecutions = [], NodeCount = 0,
       InterruptEvents =
         [\<lparr> InterruptEvent.ID = 1, NodeKey = ''300003'', NodeType = NodeTypeOther ''18'',
             NodeTitle = ''question'', NodeIcon = [], EventType = InterruptEventOther 1,
             InterruptData = ''what?'', ToolInterruptEvent = None \<rparr>,
          \<lparr> InterruptEvent.ID = 2, NodeKey = ''400004'', NodeType = NodeTypeOther ''3'',
             NodeTitle = ''llm'', NodeIcon = [], EventType = InterruptEventLLM,
             InterruptData = [],
             ToolInterruptEvent = Some
               \<lparr> ToolInterruptEvent.NodeKey = ''500005'', NodeType = NodeTypeOther ''30'',
                 NodeTitle = ''input'', NodeIcon = [], EventType = InterruptEventOther 2,
                 InterruptData = ''fill in'' \<rparr> \<rparr>],
       Output = None \<rparr>"

text \<open>An interrupted execution whose one pending interrupt event, raised by a question
  node, carries an icon of its own.\<close>

definition exampleInterruptedIcon :: WorkflowExecution where
  "exampleInterruptedIcon =
     \<lparr> WorkflowExecution.ID = 43, WorkflowID = 7, SpaceID = 1, RootExecutionID = 0,
       Status = WorkflowInterrupted, Duration = 0, FailReason = None, LogID = [],
       TokenInfo = None, AppID = None, NodeExecutions = [], NodeCount = 0,
       InterruptEvents =
         [\<lparr> InterruptEvent.ID = 3, NodeKey = ''300003'', NodeType = NodeTypeOther ''18'',
             NodeTitle = ''question'', NodeIcon = ''question.png'',
             EventType = InterruptEventOther 1, InterruptData = ''what?'',
             ToolInterruptEvent = None \<rparr>],
       Output = None \<rparr>"

text \<open>Of each pending interrupt event of an execution: its id, node key, node title,
  icon, event type and interrupt data; and the same of each node event of a response,
  together with its status.\<close>

definition pendingEvents ::
  "WorkflowExecution \<Rightarrow> (int64 \<times> string \<times> string \<times> string \<times> InterruptEventType \<times> string) list" where
  "pendingEvents exe =
     map (\<lambda>ie. (InterruptEvent.ID ie, InterruptEvent.NodeKey ie, InterruptEvent.NodeTitle ie,
                InterruptEvent.NodeIcon ie, InterruptEvent.EventType ie,
                InterruptEvent.InterruptData ie))
       (InterruptEvents exe)"

definition surfacedEvents ::
  "GetWorkFlowProcessData result
     \<Rightarrow> (string \<times> string \<times> string \<times> string \<times> InterruptEventType \<times> string) list" where
  "surfacedEvents r =
     (case r of
        Return resp \<Rightarrow>
          map (\<lambda>ev. (NodeEvent.ID ev, NodeEvent.NodeID ev, NodeEvent.NodeTitle ev,
                     NodeEvent.NodeIcon ev, NodeEvent.Type ev, NodeEvent.Data ev))
            (NodeEvents resp)
      | Fail e \<Rightarrow> []
      | Panic p \<Rightarrow> [])"

section \<open>Vocabulary of the statements on streams\<close>

text \<open>The execution id that a message carries: that of its state message, which the
  converter looks at first, else that of its data message.\<close>

definition messageExecuteID :: "Message \<Rightarrow> int64 option" where
  "messageExecuteID msg =
     (case StateMessage msg of
        Some sm \<Rightarrow> Some (StateMessage.ExecuteID sm)
      | None \<Rightarrow> map_option DataMessage.ExecuteID (DataMessage msg))"

text \<open>A state message \<open>Running\<close> with a positive execution id: the converter takes an
  execution id as the root of the stream only when it is positive.\<close>

definition establishesRoot :: "Message \<Rightarrow> bool" where
  "establishesRoot msg \<longleftrightarrow>
     (case StateMessage msg of
        Some sm \<Rightarrow> StateMessage.Status sm = WorkflowRunning \<and> 0 < sint (StateMessage.ExecuteID sm)
      | None \<Rightarrow> False)"

definition clientEvent :: "ConvertResult \<Rightarrow> OpenAPIStreamRunFlowResponse option" where
  "clientEvent r = (case r of Emit ev \<Rightarrow> Some ev | EmitNil \<Rightarrow> None | NoValue \<Rightarrow> None
                    | ConvertPanic p \<Rightarrow> None)"

text \<open>The \<open>Message\<close> events of the node \<open>n\<close> among the results of the converter, and the
  sequence number that the converter holds for \<open>n\<close> (0 for a node not yet seen).\<close>

definition isAnswerFor :: "string \<Rightarrow> ConvertResult \<Rightarrow> bool" where
  "isAnswerFor n r =
     (case r of
        Emit ev \<Rightarrow> Event ev = MessageEvent \<and> OpenAPIStreamRunFlowResponse.NodeID ev = Some n
      | EmitNil \<Rightarrow> False
      | NoValue \<Rightarrow> False
      | ConvertPanic p \<Rightarrow> False)"

definition answerCount :: "string \<Rightarrow> ConvertResult list \<Rightarrow> nat" where
  "answerCount n rs = length (filter (isAnswerFor n) rs)"

definition seqOf :: "ConvState \<Rightarrow> string \<Rightarrow> int64" where
  "seqOf st n = (case nodeID2Seq st n of None \<Rightarrow> 0 | Some k \<Rightarrow> k)"


text \<open>What the first \<open>Recv\<close> of the consumer gives on the stream an operation returned,
  if it returned one.\<close>

definition firstRecv :: "Lib \<Rightarrow> (error + ConvertedStream) \<times> 'w \<Rightarrow> RecvResult option" where
  "firstRecv lib r = (case fst r of Inl e \<Rightarrow> None | Inr sr \<Rightarrow> Some (fst (Recv lib sr)))"

section \<open>Concrete collaborators, requests and messages for the examples\<close>

text \<open>A domain service whose state counts the executions it has started; its streams
  deliver \<open>msgs\<close> and its synchronous execution ends as \<open>syncExe\<close>.\<close>

definition exampleSvc :: "Message list \<Rightarrow> WorkflowExecution \<Rightarrow> nat Svc" where
  "exampleSvc msgs syncExe =
     \<lparr> ctxUID = Some 5,
       apiAuth = Some \<lparr> UserID = 5, ConnectorID = 1024 \<rparr>,
       GetUserSpaceList = (\<lambda>uid. Inr [1]),
       Get = (\<lambda>wfID. Inr \<lparr> WorkflowMeta.ID = wfID, SpaceID = 1, LatestPublishedVersion = Some ''v1'' \<rparr>),
       GetExecution = (\<lambda>query detail. Inr syncExe),
       AsyncExecute = (\<lambda>cfg ps w. (Inr 42, Suc w)),
       AsyncExecuteNode = (\<lambda>nodeID cfg ps w. (Inr 42, Suc w)),
       SyncExecute = (\<lambda>cfg ps w. (Inr (syncExe, ReturnVariables), Suc w)),
       StreamExecute = (\<lambda>cfg ps w. (Inr msgs, Suc w)),
       StreamResume = (\<lambda>resumeReq cfg w. (Inr msgs, Suc w)),
       UnmarshalParameters = (\<lambda>text. Inr Map.empty),
       MarshalAnswerOutput = (\<lambda>out. Inr out),
       CozeConnectorID = 10000010,
       WebSDKConnectorID = 999 \<rparr>"

definition exampleStateMessage :: "int64 \<Rightarrow> WorkflowExecuteStatus \<Rightarrow> error option \<Rightarrow> Message" where
  "exampleStateMessage exeID status lastError =
     \<lparr> StateMessage = Some \<lparr> StateMessage.ExecuteID = exeID, SpaceID = 1, Status = status,
                              LastError = lastError, InterruptEvent = None \<rparr>,
       DataMessage = None \<rparr>"

definition exampleDataMessage :: "int64 \<Rightarrow> MessageType \<Rightarrow> string \<Rightarrow> Message" where
  "exampleDataMessage exeID ty node =
     \<lparr> StateMessage = None,
       DataMessage = Some \<lparr> DataMessage.ExecuteID = exeID, Type = ty, Content = ''chunk'',
                            NodeID = node, NodeTitle = ''answer'', NodeType = NodeTypeOther ''13'',
                            Last = False,
                            Usage = Some \<lparr> TokenUsage.InputTokens = 3, OutputTokens = 4 \<rparr> \<rparr> \<rparr>"

definition exampleRunRequest :: "string option \<Rightarrow> string option \<Rightarrow> OpenAPIRunFlowRequest" where
  "exampleRunRequest projectID botID =
     \<lparr> OpenAPIRunFlowRequest.WorkflowID = ''7'', Parameters = None, AppID = None,
       ProjectID = projectID, BotID = botID, ConnectorID = None, IsAsync = None \<rparr>"

definition exampleTestRunRequest :: WorkFlowTestRunRequest where
  "exampleTestRunRequest =
     \<lparr> WorkFlowTestRunRequest.WorkflowID = ''7'', SpaceID = Some ''1'', ProjectID = Some ''11'',
       BotID = Some ''12'', CommitID = None, Input = Map.empty \<rparr>"

definition exampleNodeDebugRequest :: WorkflowNodeDebugV2Request where
  "exampleNodeDebugRequest =
     \<lparr> WorkflowNodeDebugV2Request.WorkflowID = ''7'', NodeID = ''100001'', SpaceID = Some ''1'',
       ProjectID = Some ''11'', BotID = Some ''12'', Input = Map.empty, Batch = Map.empty,
       Setting = Map.empty \<rparr>"



text \<open>A stream of the execution 42 that fails with an error that is not a typed workflow
  error.\<close>

definition exampleFailedUntyped :: "Message list" where
  "exampleFailedUntyped =
     [exampleStateMessage 42 WorkflowRunning None,
      exampleStateMessage 42 WorkflowFailed (Some (ErrorString ''boom''))]"

section \<open>Decimal text: printing and parsing agree\<close>

lemma digitChar_props: "d < 10 \<Longrightarrow> isDigit (digitChar d) \<and> digitVal (digitChar d) = d"
  by (simp add: isDigit_def digitVal_def digitChar_def)

lemma parseUintLoop_append:
  "parseUintLoop a (xs @ ys) =
     (case parseUintLoop a xs of Inl e \<Rightarrow> Inl e | Inr m \<Rightarrow> parseUintLoop m ys)"
  by (induction xs arbitrary: a) simp_all

lemma parseUintLoop_formatUint:
  "n < 2 ^ 64 \<Longrightarrow> parseUintLoop 0 (formatUint n) = Inr n"
proof (induction n rule: formatUint.induct)
  case (1 n)
  show ?case
  proof (cases "n < 10")
    case True
    then show ?thesis
      by (subst formatUint.simps) (simp add: digitChar_props)
  next
    case False
    from "1.prems" have small: "n div 10 < 2 ^ 64" by simp
    have ih: "parseUintLoop 0 (formatUint (n div 10)) = Inr (n div 10)"
      using "1.IH" False small by simp
    have d: "n mod 10 < 10" by simp
    have c1: "\<not> n div 10 \<ge> (2 ^ 64 - 1) div 10 + 1"
      using "1.prems" by simp
    have c2: "\<not> n div 10 * 10 + n mod 10 \<ge> 2 ^ 64"
      using "1.prems" by simp
    show ?thesis
      using False ih c1 c2 digitChar_props [OF d]
      by (subst formatUint.simps) (simp add: parseUintLoop_append)
  qed
qed

lemma formatUint_digits: "c \<in> set (formatUint n) \<Longrightarrow> isDigit c"
proof (induction n rule: formatUint.induct)
  case (1 n)
  show ?case
  proof (cases "n < 10")
    case True
    with "1.prems" show ?thesis
      by (subst (asm) formatUint.simps) (simp add: digitChar_props)
  next
    case False
    have d: "n mod 10 < 10" by simp
    from "1.prems" False have "c \<in> set (formatUint (n div 10)) \<or> c = digitChar (n mod 10)"
      by (subst (asm) formatUint.simps) auto
    then show ?thesis
      using "1.IH" False digitChar_props [OF d] by auto
  qed
qed

lemma formatUint_nonempty: "formatUint n \<noteq> []"
  by (subst formatUint.simps) simp

lemma isDigit_not_sign: "isDigit c \<Longrightarrow> c \<noteq> CHR ''-'' \<and> c \<noteq> CHR ''+'' \<and> c \<noteq> CHR ''/''"
  by (auto simp: isDigit_def)

lemma hd_formatUint: "hd (formatUint n) \<noteq> CHR ''-'' \<and> hd (formatUint n) \<noteq> CHR ''+''"
  using formatUint_digits [of "hd (formatUint n)" n] formatUint_nonempty [of n] isDigit_not_sign
  by (metis hd_in_set)

lemma ParseInt_FormatInt: "ParseInt (FormatInt w) = Inr w"
proof (cases "sint w < 0")
  case True
  define m where "m = nat (- sint w)"
  have lo: "- (2 ^ 63) \<le> sint w" using sint_ge [of w] by simp
  have m_le: "m \<le> 2 ^ 63" using lo True by (simp add: m_def nat_le_iff)
  then have m_lt: "m < 2 ^ 64" by simp
  have wb: "- (word_of_nat m :: int64) = w"
  proof -
    have "(word_of_nat m :: int64) = word_of_int (- sint w)"
      using True by (simp add: m_def)
    then show ?thesis by simp
  qed
  show ?thesis
    using True m_le wb parseUintLoop_formatUint [OF m_lt] formatUint_nonempty [of m]
    by (simp add: ParseInt_def FormatInt_def ParseUint_def m_def [symmetric])
next
  case False
  define m where "m = nat (sint w)"
  have hi: "sint w < 2 ^ 63" using sint_lt [of w] by simp
  have m_lt63: "m < 2 ^ 63" using hi False by (simp add: m_def nat_less_iff)
  then have m_lt: "m < 2 ^ 64" by simp
  have wb: "(word_of_nat m :: int64) = w"
  proof -
    have "(word_of_nat m :: int64) = word_of_int (sint w)"
      using False by (simp add: m_def)
    then show ?thesis by simp
  qed
  show ?thesis
    using False m_lt63 wb parseUintLoop_formatUint [OF m_lt] formatUint_nonempty [of m]
      hd_formatUint [of m]
    by (simp add: ParseInt_def FormatInt_def ParseUint_def m_def [symmetric])
qed







section \<open>Merging the two halves of a batch node\<close>

text \<open>
  As declared, \<open>mergeBatchModeNodes parent inner\<close> takes \<open>NodeId\<close>, \<open>NodeName\<close>,
  \<open>NodeStatus\<close>, \<open>ErrorInfo\<close>, \<open>ErrorLevel\<close>, \<open>Input\<close>, \<open>Output\<close>, \<open>RawOutput\<close>,
  \<open>NodeExeCost\<close> and \<open>TokenAndCost\<close> from its first argument, and \<open>NodeType\<close>, \<open>IsBatch\<close>,
  \<open>Batch\<close> and \<open>Extra\<close> from its second. Which half of a batch-mode node each
  argument is, the call sites in \<open>GetProcess\<close> decide.
\<close>

lemma mergeBatchModeNodes_params:
  "NodeId (mergeBatchModeNodes parent inner) = NodeId parent
   \<and> NodeResult.NodeName (mergeBatchModeNodes parent inner) = NodeResult.NodeName parent
   \<and> NodeStatus (mergeBatchModeNodes parent inner) = NodeStatus parent
   \<and> NodeResult.ErrorInfo (mergeBatchModeNodes parent inner) = NodeResult.ErrorInfo parent
   \<and> NodeResult.ErrorLevel (mergeBatchModeNodes parent inner) = NodeResult.ErrorLevel parent
   \<and> NodeResult.Input (mergeBatchModeNodes parent inner) = NodeResult.Input parent
   \<and> NodeResult.Output (mergeBatchModeNodes parent inner) = NodeResult.Output parent
   \<and> NodeResult.RawOutput (mergeBatchModeNodes parent inner) = NodeResult.RawOutput parent
   \<and> NodeExeCost (mergeBatchModeNodes parent inner) = NodeExeCost parent
   \<and> NodeResult.TokenAndCost (mergeBatchModeNodes parent inner) = NodeResult.TokenAndCost parent
   \<and> NodeResult.NodeType (mergeBatchModeNodes parent inner) = NodeResult.NodeType inner
   \<and> IsBatch (mergeBatchModeNodes parent inner) = IsBatch inner
   \<and> NodeResult.Batch (mergeBatchModeNodes parent inner) = NodeResult.Batch inner
   \<and> NodeResult.Extra (mergeBatchModeNodes parent inner) = NodeResult.Extra inner"
  by (simp add: mergeBatchModeNodes_def)

text \<open>
  C9. Whenever the two halves of a batch-mode node are merged, the merged result should
  take \<open>NodeId\<close>, \<open>NodeName\<close>, \<open>NodeStatus\<close>, \<open>ErrorInfo\<close>, \<open>ErrorLevel\<close>, \<open>Input\<close>,
  \<open>Output\<close>, \<open>RawOutput\<close>, \<open>NodeExeCost\<close> and \<open>TokenAndCost\<close> from the parent shell, and
  \<open>NodeType\<close>, \<open>IsBatch\<close>, the serialized \<open>Batch\<close> array and \<open>Extra\<close> from the inner payload.
  The code does so when the parent shell precedes the inner payload among the node
  executions (line 735). When the inner payload comes first, line 725 calls
  \<open>mergeBatchModeNodes(inner, nr)\<close>, the cached inner payload in the place of \<open>parent\<close>
  and the shell in the place of \<open>inner\<close>: the merged result then takes its id, name, input
  and output from the inner payload, and its type, batch flag and batch array from the
  parent shell. Evaluated on the node \<open>100001\<close>: the parent shell as converted, the inner
  payload as converted, the result merged from them with the parent shell first, and
  with the inner payload first:
\<close>

theorem GetProcessData_merged_fields_inner_first:
  "convertedFields exampleLib exampleParent
     = Some (''100001'', ''llm batch'', ''in'', ''out'', ''28'', None, None)
   \<and> convertedFields exampleLib exampleInner
     = Some (''100001_inner'', ''llm'', [], [], ''3'', Some True,
             Some ''[100001_inner;100001_inner;]'')
   \<and> listedFields (GetProcessData exampleLib (exampleExecution [exampleParent, exampleInner]) [])
     = [(''100001'', ''llm batch'', ''in'', ''out'', ''3'', Some True,
         Some ''[100001_inner;100001_inner;]'')]
   \<and> listedFields (GetProcessData exampleLib (exampleExecution [exampleInner, exampleParent]) [])
     = [(''100001_inner'', ''llm'', [], [], ''28'', None, None)]"
  by code_simp

section \<open>The loop of GetProcess: which node ids reach the listing\<close>

lemma convertNodeExecution_NodeId:
  "convertNodeExecution lib e = Inr nr \<Longrightarrow> NodeId nr = NodeExecution.NodeID e"
  by (cases e) (auto simp: Let_def split: sum.splits option.splits if_splits)

lemma mergeBatchModeNodes_NodeId [simp]: "NodeId (mergeBatchModeNodes a b) = NodeId a"
  by (simp add: mergeBatchModeNodes_def)

lemma setFailReason_NodeId [simp]: "NodeId (setFailReason lib r nr) = NodeId nr"
  by (simp add: setFailReason_def)

lemma idInv_append:
  "idInv X S st \<Longrightarrow> NodeId nr \<in> S \<Longrightarrow> idInv X S (appendNodeResult st nr own)"
  by (auto simp: idInv_def appendNodeResult_def)

lemma idInv_noteNode: "idInv X S st \<Longrightarrow> idInv X S (noteNode st e)"
  by (simp add: idInv_def noteNode_def Let_def)

lemma placeNodeResult_idInv:
  assumes step: "placeNodeResult lib st e nr = Return st'"
    and nid: "NodeId nr = NodeExecution.NodeID e"
    and noShell: "\<not> isParentShell e X"
    and inS: "\<not> isInnerPayload lib e X \<Longrightarrow> NodeExecution.NodeID e \<in> S"
    and inv: "idInv X S st"
  shows "idInv X S st'"
proof (cases "NodeExecution.NodeType e = NodeTypeBatch")
  case True
  then have ne: "NodeExecution.NodeID e \<noteq> X" and "\<not> isInnerPayload lib e X"
    using noShell by (auto simp: isParentShell_def isInnerPayload_def)
  then have idS: "NodeId nr \<in> S" using inS nid by simp
  show ?thesis
  proof (cases "batchNodeID2InnerNodeResult st (NodeExecution.NodeID e)")
    case None
    then have "st' = st\<lparr>batchNodeID2NodeResult :=
                               (batchNodeID2NodeResult st)(NodeExecution.NodeID e \<mapsto> nr)\<rparr>"
      using step True by (simp add: placeNodeResult_def)
    then show ?thesis
      using inv idS ne by (auto simp: idInv_def split: if_splits)
  next
    case (Some inner)
    then have st': "st' = appendNodeResult
                        (st\<lparr>batchNodeID2InnerNodeResult :=
                               (batchNodeID2InnerNodeResult st)(NodeExecution.NodeID e := None)\<rparr>)
                        (mergeBatchModeNodes inner nr) False"
      using step True by (simp add: placeNodeResult_def)
    have "NodeId inner \<in> S"
      using Some ne inv by (auto simp: idInv_def)
    moreover have "idInv X S (st\<lparr>batchNodeID2InnerNodeResult :=
                               (batchNodeID2InnerNodeResult st)(NodeExecution.NodeID e := None)\<rparr>)"
      using inv by (auto simp: idInv_def split: if_splits)
    ultimately show ?thesis
      unfolding st' by (intro idInv_append) simp_all
  qed
next
  case notBatch: False
  show ?thesis
  proof (cases "IndexedExecutions e \<noteq> [] \<and> (\<exists>p. ParentNodeID e = Some p \<and> IsGeneratedNodeForBatchMode lib (NodeExecution.NodeID e) p)")
    case False
    then have "\<not> isInnerPayload lib e X" by (auto simp: isInnerPayload_def)
    then have idS: "NodeId nr \<in> S" using inS nid by simp
    have "st' = appendNodeResult st nr (NodeExecution.NodeType e = NodeTypeExit)"
      using step notBatch False
      by (auto simp: placeNodeResult_def split: option.splits if_splits)
    then show ?thesis using inv idS by (simp add: idInv_append)
  next
    case True
    then obtain p where p: "ParentNodeID e = Some p"
        "IsGeneratedNodeForBatchMode lib (NodeExecution.NodeID e) p" "IndexedExecutions e \<noteq> []"
      by auto
    show ?thesis
    proof (cases "batchNodeID2NodeResult st p")
      case None
      then have st': "st' = st\<lparr>batchNodeID2InnerNodeResult :=
                                      (batchNodeID2InnerNodeResult st)(p \<mapsto> nr)\<rparr>"
        using step notBatch p by (simp add: placeNodeResult_def)
      show ?thesis
      proof (cases "p = X")
        case True
        then show ?thesis using inv unfolding st' by (simp add: idInv_def)
      next
        case False
        then have "\<not> isInnerPayload lib e X" using p by (simp add: isInnerPayload_def)
        then have idS: "NodeId nr \<in> S" using inS nid by simp
        then show ?thesis
          using inv False unfolding st' by (auto simp: idInv_def split: if_splits)
      qed
    next
      case (Some parentNodeResult)
      then have st': "st' = appendNodeResult
                               (st\<lparr>batchNodeID2NodeResult :=
                                      (batchNodeID2NodeResult st)(p := None)\<rparr>)
                               (mergeBatchModeNodes parentNodeResult nr) False"
        using step notBatch p by (simp add: placeNodeResult_def)
      have "NodeId parentNodeResult \<in> S"
        using Some inv by (auto simp: idInv_def)
      moreover have "idInv X S (st\<lparr>batchNodeID2NodeResult :=
                                      (batchNodeID2NodeResult st)(p := None)\<rparr>)"
        using inv by (auto simp: idInv_def split: if_splits)
      ultimately show ?thesis
        unfolding st' by (intro idInv_append) simp_all
    qed
  qed
qed

lemma nodeLoopBody_idInv:
  assumes step: "nodeLoopBody lib st e = Return st'"
    and noShell: "\<not> isParentShell e X"
    and inS: "\<not> isInnerPayload lib e X \<Longrightarrow> NodeExecution.NodeID e \<in> S"
    and inv: "idInv X S st"
  shows "idInv X S st'"
proof -
  obtain nr where conv: "convertNodeExecution lib e = Inr nr"
      and place: "placeNodeResult lib (noteNode st e) e nr = Return st'"
    using step by (auto simp: nodeLoopBody_def split: sum.splits)
  show ?thesis
    using placeNodeResult_idInv [OF place convertNodeExecution_NodeId [OF conv] noShell inS]
      idInv_noteNode [OF inv] by simp
qed

lemma nodeLoop_idInv:
  assumes "nodeLoop lib st es = Return st'"
    and "\<forall>e \<in> set es. \<not> isParentShell e X"
    and "\<forall>e \<in> set es. \<not> isInnerPayload lib e X \<longrightarrow> NodeExecution.NodeID e \<in> S"
    and "idInv X S st"
  shows "idInv X S st'"
  using assms
proof (induction es arbitrary: st)
  case Nil
  then show ?case by simp
next
  case (Cons e es)
  from Cons.prems(1) obtain st1 where s1: "nodeLoopBody lib st e = Return st1"
      and rest: "nodeLoop lib st1 es = Return st'"
    by (auto split: result.splits)
  have "idInv X S st1"
    using nodeLoopBody_idInv [OF s1, of X S] Cons.prems by simp
  then show ?case
    using Cons.IH [OF rest] Cons.prems by simp
qed

lemma in_set_update_f:
  assumes "x \<in> set (xs[i := f (xs ! i)])"
  shows "x \<in> set xs \<or> (\<exists>y \<in> set xs. x = f y)"
proof (cases "i < length xs")
  case True
  have "x = f (xs ! i) \<or> x \<in> set xs"
    using assms set_update_subset_insert [of xs i "f (xs ! i)"] by auto
  then show ?thesis using True nth_mem [of i xs] by auto
next
  case False
  then show ?thesis using assms by (simp add: list_update_beyond)
qed

lemma attachFailReason_ids:
  assumes "\<forall>nr \<in> set (nodeResults st). NodeId nr \<in> S"
    and "x \<in> set (attachFailReason lib wfFail fr st)"
  shows "NodeId x = ExitNodeKey lib \<or> NodeId x \<in> S"
  using assms
  by (auto simp: attachFailReason_def split: option.splits NodeResultPtr.splits if_splits
           dest!: in_set_update_f)

lemma leftoverParents_mem:
  "x \<in> set (leftoverParents m ks) \<longleftrightarrow> (\<exists>k \<in> set ks. m k = Some x)"
  by (induction ks) (auto simp: leftoverParents_def split: option.splits)

lemma GetProcessData_Return:
  assumes "GetProcessData lib exe ks = Return resp"
  obtains st evs where "nodeLoop lib initLoopState (NodeExecutions exe) = Return st"
    and "nodeEvents lib (InterruptEvents exe) = Return evs"
    and "NodeEvents resp = evs"
    and "ExecuteStatus resp = (if WorkflowExecution.Status exe = WorkflowInterrupted
                    then WorkflowRunning else WorkflowExecution.Status exe)"
    and "NodeResults resp =
           attachFailReason lib ((if WorkflowExecution.Status exe = WorkflowInterrupted
                    then WorkflowRunning else WorkflowExecution.Status exe) = WorkflowFailed) (FailReason exe) st
           @ leftoverParents (batchNodeID2NodeResult st) ks"
  using assms
  by (auto simp: GetProcessData_def Let_def bindR_def split: result.splits)

lemma idInv_init: "idInv X S initLoopState"
  by (simp add: idInv_def initLoopState_def)

lemma GetProcessData_listed_ids:
  assumes ret: "GetProcessData lib exe ks = Return resp"
    and noShell: "\<forall>e \<in> set (NodeExecutions exe). \<not> isParentShell e X"
    and listed: "nr \<in> set (NodeResults resp)"
  shows "NodeId nr = ExitNodeKey lib
         \<or> (\<exists>e \<in> set (NodeExecutions exe). \<not> isInnerPayload lib e X \<and> NodeId nr = NodeExecution.NodeID e)"
proof -
  define S where "S = NodeExecution.NodeID ` {e \<in> set (NodeExecutions exe). \<not> isInnerPayload lib e X}"
  from ret obtain st where loop: "nodeLoop lib initLoopState (NodeExecutions exe) = Return st"
    and res: "NodeResults resp =
           attachFailReason lib ((if WorkflowExecution.Status exe = WorkflowInterrupted
                    then WorkflowRunning else WorkflowExecution.Status exe) = WorkflowFailed) (FailReason exe) st
           @ leftoverParents (batchNodeID2NodeResult st) ks"
    by (rule GetProcessData_Return)
  have inv: "idInv X S st"
    using nodeLoop_idInv [where S = S, OF loop noShell _ idInv_init] by (auto simp: S_def)
  have "NodeId nr = ExitNodeKey lib \<or> NodeId nr \<in> S"
  proof (cases "nr \<in> set (leftoverParents (batchNodeID2NodeResult st) ks)")
    case True
    then show ?thesis using inv by (auto simp: leftoverParents_mem idInv_def)
  next
    case False
    then have "nr \<in> set (attachFailReason lib ((if WorkflowExecution.Status exe = WorkflowInterrupted
                    then WorkflowRunning else WorkflowExecution.Status exe) = WorkflowFailed) (FailReason exe) st)"
      using listed res by simp
    then show ?thesis
      using attachFailReason_ids [of st S nr] inv by (auto simp: idInv_def)
  qed
  then show ?thesis by (auto simp: S_def)
qed

lemma placeNodeResult_inner_free:
  assumes "placeNodeResult lib st e nr = Return st'"
    and "\<not> isInnerPayload lib e Y"
    and "batchNodeID2InnerNodeResult st Y = None"
  shows "batchNodeID2InnerNodeResult st' Y = None"
  using assms
  by (auto simp: placeNodeResult_def appendNodeResult_def isInnerPayload_def
           split: option.splits if_splits)

lemma placeNodeResult_shell:
  assumes place: "placeNodeResult lib st e nr = Return st'"
    and conv: "convertNodeExecution lib e = Inr nr"
    and mem: "e \<in> set es"
    and noInner: "\<not> isInnerPayload lib e Y"
    and free: "batchNodeID2InnerNodeResult st Y = None"
    and shell: "isParentShell e Y \<or> shellCached lib es Y st"
  shows "shellCached lib es Y st'"
proof (cases "isParentShell e Y")
  case True
  then have "st' = st\<lparr>batchNodeID2NodeResult := (batchNodeID2NodeResult st)(Y \<mapsto> nr)\<rparr>"
    using place free by (simp add: placeNodeResult_def isParentShell_def)
  then show ?thesis
    using True conv mem by (auto simp: shellCached_def)
next
  case False
  then have cached: "shellCached lib es Y st" using shell by simp
  have "batchNodeID2NodeResult st' Y = batchNodeID2NodeResult st Y"
    using place False noInner
    by (auto simp: placeNodeResult_def appendNodeResult_def isParentShell_def isInnerPayload_def
             split: option.splits if_splits)
  then show ?thesis using cached by (simp add: shellCached_def)
qed

lemma noteNode_maps [simp]:
  "batchNodeID2InnerNodeResult (noteNode st e) = batchNodeID2InnerNodeResult st"
  "batchNodeID2NodeResult (noteNode st e) = batchNodeID2NodeResult st"
  "nodeResults (noteNode st e) = nodeResults st"
  by (simp_all add: noteNode_def Let_def)

lemma shellCached_noteNode [simp]: "shellCached lib es Y (noteNode st e) = shellCached lib es Y st"
  by (simp add: shellCached_def)

lemma nodeLoop_shell:
  assumes "nodeLoop lib st es' = Return st'"
    and "set es' \<subseteq> set es"
    and "\<forall>e \<in> set es'. \<not> isInnerPayload lib e Y"
    and "batchNodeID2InnerNodeResult st Y = None"
    and "(\<exists>p \<in> set es'. isParentShell p Y) \<or> shellCached lib es Y st"
  shows "shellCached lib es Y st'"
  using assms
proof (induction es' arbitrary: st)
  case Nil
  then show ?case by simp
next
  case (Cons e rest)
  from Cons.prems(1) obtain st1 where s1: "nodeLoopBody lib st e = Return st1"
      and loop: "nodeLoop lib st1 rest = Return st'"
    by (auto split: result.splits)
  from s1 obtain nr where conv: "convertNodeExecution lib e = Inr nr"
      and place: "placeNodeResult lib (noteNode st e) e nr = Return st1"
    by (auto simp: nodeLoopBody_def split: sum.splits)
  have noInner: "\<not> isInnerPayload lib e Y" using Cons.prems(3) by simp
  have free1: "batchNodeID2InnerNodeResult st1 Y = None"
    using placeNodeResult_inner_free [OF place noInner] Cons.prems(4) by simp
  have next_shell: "(\<exists>p \<in> set rest. isParentShell p Y) \<or> shellCached lib es Y st1"
  proof (cases "isParentShell e Y \<or> shellCached lib es Y st")
    case True
    then have "shellCached lib es Y st1"
      using placeNodeResult_shell [OF place conv _ noInner, of es] Cons.prems(2,4) by simp
    then show ?thesis by simp
  next
    case False
    then show ?thesis using Cons.prems(5) by auto
  qed
  show ?case
    using Cons.IH [OF loop _ _ free1 next_shell] Cons.prems(2,3) by simp
qed

lemma GetProcessData_lone_shell_listed:
  assumes ret: "GetProcessData lib exe ks = Return resp"
    and order: "rangeOrder (cachedParents lib exe) ks"
    and shell: "\<exists>p \<in> set (NodeExecutions exe). isParentShell p Y"
    and noInner: "\<forall>e \<in> set (NodeExecutions exe). \<not> isInnerPayload lib e Y"
  shows "\<exists>p \<in> set (NodeExecutions exe). \<exists>nr \<in> set (NodeResults resp).
           isParentShell p Y \<and> convertNodeExecution lib p = Inr nr"
proof -
  from ret obtain st where loop: "nodeLoop lib initLoopState (NodeExecutions exe) = Return st"
    and res: "NodeResults resp =
           attachFailReason lib ((if WorkflowExecution.Status exe = WorkflowInterrupted
                    then WorkflowRunning else WorkflowExecution.Status exe) = WorkflowFailed) (FailReason exe) st
           @ leftoverParents (batchNodeID2NodeResult st) ks"
    by (rule GetProcessData_Return)
  have "shellCached lib (NodeExecutions exe) Y st"
    using nodeLoop_shell [OF loop _ noInner _ disjI1 [OF shell]] by (simp add: initLoopState_def)
  then obtain p nr where p: "p \<in> set (NodeExecutions exe)" "isParentShell p Y"
      "convertNodeExecution lib p = Inr nr" "batchNodeID2NodeResult st Y = Some nr"
    by (auto simp: shellCached_def)
  have "Y \<in> set ks"
    using order loop p(4) by (auto simp: rangeOrder_def cachedParents_def)
  then have "nr \<in> set (NodeResults resp)"
    using p(4) res by (auto simp: leftoverParents_mem)
  then show ?thesis using p by blast
qed

section \<open>The examples, evaluated\<close>

lemmas exampleNodes =
  exampleInner_def exampleParent_def exampleIteration_def exampleLoneShell_def
  exampleExecution_def exampleLoneHalves_def exampleLib_def exampleMarshalNodeResults_def

lemmas loopDefs =
  nodeLoopBody_def placeNodeResult_def noteNode_def appendNodeResult_def initLoopState_def
  Let_def FromOrDefault_def

lemma cached1: "cachedParents exampleLib (exampleExecution [exampleParent, exampleInner]) = Map.empty"
  by (simp add: cachedParents_def exampleNodes loopDefs)

lemma cached2: "cachedParents exampleLib (exampleExecution [exampleInner, exampleParent]) = Map.empty"
  by (simp add: cachedParents_def exampleNodes loopDefs)

lemma cached3: "dom (cachedParents exampleLib (exampleExecution [exampleParent])) = {''100001''}"
  by (simp add: cachedParents_def exampleNodes loopDefs)

lemma cached4: "dom (cachedParents exampleLib exampleLoneHalves) = {''200002''}"
  by (simp add: cachedParents_def exampleNodes loopDefs)

lemma placeNodeResult_shell_after_inner:
  assumes "NodeExecution.NodeType e = NodeTypeBatch"
    and "batchNodeID2InnerNodeResult st (NodeExecution.NodeID e) = Some inner"
  shows "placeNodeResult lib st e nr =
           Return (appendNodeResult
             (st\<lparr>batchNodeID2InnerNodeResult :=
                   (batchNodeID2InnerNodeResult st)(NodeExecution.NodeID e := None)\<rparr>)
             (mergeBatchModeNodes inner nr) False)"
  using assms by (simp add: placeNodeResult_def)

section \<open>The two halves of a batch node in GetProcess\<close>

text \<open>
  C1. When both halves of a batch-mode node are among the node executions, \<open>GetProcess\<close>
  should list the same merged result, with \<open>IsBatch = true\<close> and the array of the \<open>N\<close>
  iterations, whichever half comes first. The code does so only when the parent shell comes
  first. When the inner payload comes first, line 725 calls
  \<open>mergeBatchModeNodes(inner, nr)\<close> with the cached inner payload in the place of the
  parameter \<open>parent\<close> and the shell in the place of \<open>inner\<close> (lemma
  \<open>placeNodeResult_shell_after_inner\<close>), so the listed result bears the generated node id
  and the shell's type, and has neither \<open>IsBatch\<close> nor \<open>Batch\<close>. Evaluated on the node
  \<open>100001\<close> with two iterations, in both orders:
\<close>

theorem GetProcessData_batch_halves_order:
  "listedBatchInfo (GetProcessData exampleLib (exampleExecution [exampleParent, exampleInner]) [])
     = [(''100001'', ''3'', Some True, Some ''[100001_inner;100001_inner;]'')]
   \<and> listedBatchInfo (GetProcessData exampleLib (exampleExecution [exampleInner, exampleParent]) [])
     = [(''100001_inner'', ''28'', None, None)]"
  by code_simp

text \<open>
  C2, as stated, asks that a batch-mode node with only one half among the node
  executions be absent from the listing. A lone parent shell is listed: the loop caches
  it, and the final \<open>range\<close> over the cache (lines 778 to 784) appends it.
\<close>

theorem GetProcessData_lone_shell_counterexample:
  "rangeOrder (cachedParents exampleLib (exampleExecution [exampleParent])) [''100001'']
   \<and> listedBatchInfo (GetProcessData exampleLib (exampleExecution [exampleParent]) [''100001''])
     = [(''100001'', ''28'', None, None)]"
proof -
  have "listedBatchInfo (GetProcessData exampleLib (exampleExecution [exampleParent]) [''100001''])
     = [(''100001'', ''28'', None, None)]"
    by code_simp
  then show ?thesis by (simp add: rangeOrder_def cached3)
qed

lemma nodeEvents_nth:
  "nodeEvents lib ies = Return evs \<Longrightarrow>
     length evs = length ies \<and> (\<forall>i < length ies. nodeEventOf lib (ies ! i) = Return (evs ! i))"
proof (induction ies arbitrary: evs)
  case Nil
  then show ?case by simp
next
  case (Cons ie rest)
  from Cons.prems obtain ev evs' where ev: "nodeEventOf lib ie = Return ev"
      and rest: "nodeEvents lib rest = Return evs'" and evs: "evs = ev # evs'"
    by (auto simp: bindR_def split: result.splits)
  show ?case
    using Cons.IH [OF rest] ev evs by (auto simp: nth_Cons split: nat.splits)
qed

text \<open>
  C2, amended. Let \<open>GetProcess\<close> return a response, the final \<open>range\<close> running in any
  order \<open>ks\<close> it can take.
  If no parent shell of the node \<open>X\<close> is among the node executions, an inner payload of
  \<open>X\<close> reaches the listing nowhere: every listed result bears the node id of an execution
  that is not an inner payload of \<open>X\<close>, or is the end node that the failure block
  synthesizes.
  If a parent shell of the node \<open>Y\<close> is among the node executions and no inner payload of
  \<open>Y\<close> is, the listing holds the unmerged conversion of a parent shell of \<open>Y\<close>.
\<close>

theorem GetProcessData_lone_halves:
  assumes ret: "GetProcessData lib exe ks = Return resp"
    and order: "rangeOrder (cachedParents lib exe) ks"
  shows "((\<forall>e \<in> set (NodeExecutions exe). \<not> isParentShell e X) \<longrightarrow>
            (\<forall>nr \<in> set (NodeResults resp).
               NodeId nr = ExitNodeKey lib
               \<or> (\<exists>e \<in> set (NodeExecutions exe).
                     \<not> isInnerPayload lib e X \<and> NodeId nr = NodeExecution.NodeID e)))
       \<and> ((\<exists>p \<in> set (NodeExecutions exe). isParentShell p Y)
            \<and> (\<forall>e \<in> set (NodeExecutions exe). \<not> isInnerPayload lib e Y) \<longrightarrow>
            (\<exists>p \<in> set (NodeExecutions exe). \<exists>nr \<in> set (NodeResults resp).
               isParentShell p Y \<and> convertNodeExecution lib p = Inr nr))"
  using GetProcessData_listed_ids [OF ret, of X] GetProcessData_lone_shell_listed [OF ret order, of Y]
  by blast

theorem GetProcessData_lone_halves_witness:
  "\<exists>resp. GetProcessData exampleLib exampleLoneHalves [''200002''] = Return resp
     \<and> rangeOrder (cachedParents exampleLib exampleLoneHalves) [''200002'']
     \<and> ''100001_inner'' \<notin> NodeId ` set (NodeResults resp)
     \<and> ''200002'' \<in> NodeId ` set (NodeResults resp)"
proof -
  have "returned (GetProcessData exampleLib exampleLoneHalves [''200002'']) \<noteq> None"
    by code_simp
  then obtain resp where ret: "GetProcessData exampleLib exampleLoneHalves [''200002''] = Return resp"
    by (cases "GetProcessData exampleLib exampleLoneHalves [''200002'']") (simp_all add: returned_def)
  have order: "rangeOrder (cachedParents exampleLib exampleLoneHalves) [''200002'']"
    by (simp add: rangeOrder_def cached4)
  have es: "NodeExecutions exampleLoneHalves = [exampleInner, exampleLoneShell]"
    by (simp add: exampleLoneHalves_def exampleExecution_def)
  have noShell: "\<forall>e \<in> set (NodeExecutions exampleLoneHalves). \<not> isParentShell e ''100001''"
    by (simp add: es isParentShell_def exampleInner_def exampleLoneShell_def)
  have inner: "isInnerPayload exampleLib exampleInner ''100001''"
    by (simp add: isInnerPayload_def exampleInner_def exampleLib_def)
  have shell: "\<exists>p \<in> set (NodeExecutions exampleLoneHalves). isParentShell p ''200002''"
    by (simp add: es isParentShell_def exampleInner_def exampleLoneShell_def)
  have noInner: "\<forall>e \<in> set (NodeExecutions exampleLoneHalves). \<not> isInnerPayload exampleLib e ''200002''"
    by (simp add: es isInnerPayload_def exampleInner_def exampleLoneShell_def)
  have exitKey: "ExitNodeKey exampleLib = ''900001''"
    by (simp add: exampleLib_def)
  have ids: "NodeExecution.NodeID exampleInner = ''100001_inner''"
      "NodeExecution.NodeID exampleLoneShell = ''200002''"
    by (simp_all add: exampleInner_def exampleLoneShell_def)
  note both = GetProcessData_lone_halves [OF ret order, of "''100001''" "''200002''"]
  have a: "''100001_inner'' \<notin> NodeId ` set (NodeResults resp)"
  proof
    assume "''100001_inner'' \<in> NodeId ` set (NodeResults resp)"
    then obtain nr where nr: "nr \<in> set (NodeResults resp)" "NodeId nr = ''100001_inner''"
      by auto
    with both noShell have "NodeId nr = ExitNodeKey exampleLib
        \<or> (\<exists>e \<in> set (NodeExecutions exampleLoneHalves).
              \<not> isInnerPayload exampleLib e ''100001'' \<and> NodeId nr = NodeExecution.NodeID e)"
      by blast
    then show False
      using nr(2) inner by (auto simp: es exitKey ids)
  qed
  have b: "''200002'' \<in> NodeId ` set (NodeResults resp)"
  proof -
    from both shell noInner obtain p nr where p: "p \<in> set (NodeExecutions exampleLoneHalves)"
        "nr \<in> set (NodeResults resp)" "isParentShell p ''200002''"
        "convertNodeExecution exampleLib p = Inr nr"
      by blast
    have "NodeId nr = ''200002''"
      using convertNodeExecution_NodeId [OF p(4)] p(3) by (simp add: isParentShell_def)
    then show ?thesis using p(2) by force
  qed
  show ?thesis using ret order a b by blast
qed

section \<open>An interrupted execution in GetProcess\<close>

text \<open>
  C10, as stated, asks that each pending interrupt event be surfaced as a node event
  carrying the node key, node title, icon, event type and interrupt data of the event.
  For an event of type \<open>InterruptEventLLM\<close>, lines 791 to 801 put the tool interrupt event
  nested in it in its place: the pending event of node \<open>400004\<close> is surfaced under the
  node key \<open>500005\<close>, with the title, type and data of the tool's event. And the icon is
  never the event's \<open>NodeIcon\<close>: line 802 looks it up in \<open>nodeIconURLCache\<close> by node type.
\<close>

theorem GetProcessData_llm_event_counterexample:
  "pendingEvents exampleInterrupted
     = [(1, ''300003'', ''question'', [], InterruptEventOther 1, ''what?''),
        (2, ''400004'', ''llm'', [], InterruptEventLLM, [])]
   \<and> surfacedEvents (GetProcessData exampleLib exampleInterrupted [])
     = [(''1'', ''300003'', ''question'', [], InterruptEventOther 1, ''what?''),
        (''2'', ''500005'', ''input'', [], InterruptEventOther 2, ''fill in'')]
   \<and> pendingEvents exampleInterruptedIcon
     = [(3, ''300003'', ''question'', ''question.png'', InterruptEventOther 1, ''what?'')]
   \<and> surfacedEvents (GetProcessData exampleLib exampleInterruptedIcon [])
     = [(''3'', ''300003'', ''question'', [], InterruptEventOther 1, ''what?'')]"
  by code_simp

text \<open>
  C10, amended. Whenever \<open>GetProcess\<close> returns a response, its \<open>ExecuteStatus\<close> is never
  \<open>Interrupted\<close>: a stored status \<open>Interrupted\<close> is reported as \<open>Running\<close>. The pending
  interrupt events are surfaced one to one and in order as \<open>NodeEvents\<close>. Each carries the
  event id in decimal. For an event of another type than \<open>InterruptEventLLM\<close> it carries
  the node key, node title, event type and interrupt data of the event, and the icon
  that \<open>nodeIconURLCache\<close> holds for the event's node type (empty when it holds none). For
  an event of type \<open>InterruptEventLLM\<close> it carries those of the tool interrupt event
  nested in it instead, and the icon held for the tool event's node type.
\<close>

theorem GetProcessData_interrupted:
  assumes ret: "GetProcessData lib exe ks = Return resp"
  shows "ExecuteStatus resp \<noteq> WorkflowInterrupted
     \<and> (WorkflowExecution.Status exe = WorkflowInterrupted \<longrightarrow> ExecuteStatus resp = WorkflowRunning)
     \<and> length (NodeEvents resp) = length (InterruptEvents exe)
     \<and> (\<forall>i < length (InterruptEvents exe).
          NodeEvent.ID (NodeEvents resp ! i) = FormatInt (InterruptEvent.ID (InterruptEvents exe ! i))
          \<and> (InterruptEvent.EventType (InterruptEvents exe ! i) \<noteq> InterruptEventLLM \<longrightarrow>
               NodeEvent.NodeID (NodeEvents resp ! i) = InterruptEvent.NodeKey (InterruptEvents exe ! i)
               \<and> NodeEvent.NodeTitle (NodeEvents resp ! i) = InterruptEvent.NodeTitle (InterruptEvents exe ! i)
               \<and> NodeEvent.NodeIcon (NodeEvents resp ! i)
                   = FromOrDefault (nodeIconURLCache lib (InterruptEvent.NodeType (InterruptEvents exe ! i))) []
               \<and> NodeEvent.Type (NodeEvents resp ! i) = InterruptEvent.EventType (InterruptEvents exe ! i)
               \<and> NodeEvent.Data (NodeEvents resp ! i) = InterruptEvent.InterruptData (InterruptEvents exe ! i))
          \<and> (InterruptEvent.EventType (InterruptEvents exe ! i) = InterruptEventLLM \<longrightarrow>
               (\<exists>t. ToolInterruptEvent (InterruptEvents exe ! i) = Some t
                  \<and> NodeEvent.NodeID (NodeEvents resp ! i) = ToolInterruptEvent.NodeKey t
                  \<and> NodeEvent.NodeTitle (NodeEvents resp ! i) = ToolInterruptEvent.NodeTitle t
                  \<and> NodeEvent.NodeIcon (NodeEvents resp ! i)
                      = FromOrDefault (nodeIconURLCache lib (ToolInterruptEvent.NodeType t)) []
                  \<and> NodeEvent.Type (NodeEvents resp ! i) = ToolInterruptEvent.EventType t
                  \<and> NodeEvent.Data (NodeEvents resp ! i) = ToolInterruptEvent.InterruptData t)))"
proof -
  from ret obtain evs where evs: "nodeEvents lib (InterruptEvents exe) = Return evs"
      "NodeEvents resp = evs"
    and status: "ExecuteStatus resp = (if WorkflowExecution.Status exe = WorkflowInterrupted
                    then WorkflowRunning else WorkflowExecution.Status exe)"
    by (rule GetProcessData_Return)
  have len: "length (NodeEvents resp) = length (InterruptEvents exe)"
    and each: "\<And>i. i < length (InterruptEvents exe) \<Longrightarrow>
                 nodeEventOf lib (InterruptEvents exe ! i) = Return (NodeEvents resp ! i)"
    using nodeEvents_nth [OF evs(1)] evs(2) by simp_all
  have "ExecuteStatus resp \<noteq> WorkflowInterrupted"
    using status by (simp split: if_splits)
  moreover have "WorkflowExecution.Status exe = WorkflowInterrupted \<longrightarrow> ExecuteStatus resp = WorkflowRunning"
    using status by simp
  moreover have "\<forall>i < length (InterruptEvents exe).
          NodeEvent.ID (NodeEvents resp ! i) = FormatInt (InterruptEvent.ID (InterruptEvents exe ! i))
          \<and> (InterruptEvent.EventType (InterruptEvents exe ! i) \<noteq> InterruptEventLLM \<longrightarrow>
               NodeEvent.NodeID (NodeEvents resp ! i) = InterruptEvent.NodeKey (InterruptEvents exe ! i)
               \<and> NodeEvent.NodeTitle (NodeEvents resp ! i) = InterruptEvent.NodeTitle (InterruptEvents exe ! i)
               \<and> NodeEvent.NodeIcon (NodeEvents resp ! i)
                   = FromOrDefault (nodeIconURLCache lib (InterruptEvent.NodeType (InterruptEvents exe ! i))) []
               \<and> NodeEvent.Type (NodeEvents resp ! i) = InterruptEvent.EventType (InterruptEvents exe ! i)
               \<and> NodeEvent.Data (NodeEvents resp ! i) = InterruptEvent.InterruptData (InterruptEvents exe ! i))
          \<and> (InterruptEvent.EventType (InterruptEvents exe ! i) = InterruptEventLLM \<longrightarrow>
               (\<exists>t. ToolInterruptEvent (InterruptEvents exe ! i) = Some t
                  \<and> NodeEvent.NodeID (NodeEvents resp ! i) = ToolInterruptEvent.NodeKey t
                  \<and> NodeEvent.NodeTitle (NodeEvents resp ! i) = ToolInterruptEvent.NodeTitle t
                  \<and> NodeEvent.NodeIcon (NodeEvents resp ! i)
                      = FromOrDefault (nodeIconURLCache lib (ToolInterruptEvent.NodeType t)) []
                  \<and> NodeEvent.Type (NodeEvents resp ! i) = ToolInterruptEvent.EventType t
                  \<and> NodeEvent.Data (NodeEvents resp ! i) = ToolInterruptEvent.InterruptData t))"
  proof (intro allI impI)
    fix i assume "i < length (InterruptEvents exe)"
    from each [OF this, symmetric] show "NodeEvent.ID (NodeEvents resp ! i) = FormatInt (InterruptEvent.ID (InterruptEvents exe ! i))
          \<and> (InterruptEvent.EventType (InterruptEvents exe ! i) \<noteq> InterruptEventLLM \<longrightarrow>
               NodeEvent.NodeID (NodeEvents resp ! i) = InterruptEvent.NodeKey (InterruptEvents exe ! i)
               \<and> NodeEvent.NodeTitle (NodeEvents resp ! i) = InterruptEvent.NodeTitle (InterruptEvents exe ! i)
               \<and> NodeEvent.NodeIcon (NodeEvents resp ! i)
                   = FromOrDefault (nodeIconURLCache lib (InterruptEvent.NodeType (InterruptEvents exe ! i))) []
               \<and> NodeEvent.Type (NodeEvents resp ! i) = InterruptEvent.EventType (InterruptEvents exe ! i)
               \<and> NodeEvent.Data (NodeEvents resp ! i) = InterruptEvent.InterruptData (InterruptEvents exe ! i))
          \<and> (InterruptEvent.EventType (InterruptEvents exe ! i) = InterruptEventLLM \<longrightarrow>
               (\<exists>t. ToolInterruptEvent (InterruptEvents exe ! i) = Some t
                  \<and> NodeEvent.NodeID (NodeEvents resp ! i) = ToolInterruptEvent.NodeKey t
                  \<and> NodeEvent.NodeTitle (NodeEvents resp ! i) = ToolInterruptEvent.NodeTitle t
                  \<and> NodeEvent.NodeIcon (NodeEvents resp ! i)
                      = FromOrDefault (nodeIconURLCache lib (ToolInterruptEvent.NodeType t)) []
                  \<and> NodeEvent.Type (NodeEvents resp ! i) = ToolInterruptEvent.EventType t
                  \<and> NodeEvent.Data (NodeEvents resp ! i) = ToolInterruptEvent.InterruptData t))"
      by (auto simp: nodeEventOf_def split: if_splits option.splits)
  qed
  ultimately show ?thesis using len by blast
qed

theorem GetProcessData_interrupted_witness:
  "WorkflowExecution.Status exampleInterrupted = WorkflowInterrupted
   \<and> (\<exists>resp. GetProcessData exampleLib exampleInterrupted [] = Return resp
        \<and> ExecuteStatus resp = WorkflowRunning
        \<and> map NodeEvent.ID (NodeEvents resp) = [''1'', ''2'']
        \<and> map NodeEvent.NodeID (NodeEvents resp) = [''300003'', ''500005''])"
proof -
  have st: "WorkflowExecution.Status exampleInterrupted = WorkflowInterrupted"
    by (simp add: exampleInterrupted_def)
  have "returned (GetProcessData exampleLib exampleInterrupted []) \<noteq> None"
    by code_simp
  then obtain resp where ret: "GetProcessData exampleLib exampleInterrupted [] = Return resp"
    by (cases "GetProcessData exampleLib exampleInterrupted []") (simp_all add: returned_def)
  note known = GetProcessData_interrupted [OF ret]
  have len: "length (InterruptEvents exampleInterrupted) = 2"
    by (simp add: exampleInterrupted_def)
  have f1: "FormatInt 1 = ''1''" and f2: "FormatInt 2 = ''2''"
    by code_simp+
  have l2: "length (NodeEvents resp) = 2" using known len by simp
  note ev0 = known [THEN conjunct2, THEN conjunct2, THEN conjunct2, rule_format, of 0]
  note ev1 = known [THEN conjunct2, THEN conjunct2, THEN conjunct2, rule_format, of 1]
  have e0: "NodeEvent.ID (NodeEvents resp ! 0) = ''1'' \<and> NodeEvent.NodeID (NodeEvents resp ! 0) = ''300003''"
    using ev0 f1 by (simp add: exampleInterrupted_def)
  have e1: "NodeEvent.ID (NodeEvents resp ! 1) = ''2'' \<and> NodeEvent.NodeID (NodeEvents resp ! 1) = ''500005''"
    using ev1 f2 by (simp add: exampleInterrupted_def)
  obtain a b where ab: "NodeEvents resp = [a, b]"
    using l2 by (metis (no_types, opaque_lifting) One_nat_def Suc_1 length_0_conv length_Suc_conv)
  have "ExecuteStatus resp = WorkflowRunning" using known st by simp
  then show ?thesis using st ret e0 e1 ab by auto
qed

section \<open>The stream event converter\<close>

lemmas convDefs =
  convertStreamRunEvent_def convertStateMessage_def convertDataMessage_def bumpMessageID_def Let_def

lemma step_no_root:
  assumes "\<not> 0 < sint (executeID st)" and "\<not> establishesRoot m"
  shows "\<not> 0 < sint (executeID (snd (convertStreamRunEvent lib wid st m)))"
  using assms
  by (auto simp: convDefs establishesRoot_def
           split: option.splits WorkflowExecuteStatus.splits error.splits if_splits)

lemma step_establishes:
  assumes "\<not> 0 < sint (executeID st)"
    and "StateMessage m = Some sm" and "StateMessage.Status sm = WorkflowRunning"
  shows "convertStreamRunEvent lib wid st m =
           (NoValue, st\<lparr>executeID := StateMessage.ExecuteID sm, spaceID := StateMessage.SpaceID sm\<rparr>)"
  using assms by (simp add: convDefs)

lemma step_keeps_root:
  assumes "0 < sint (executeID st)"
  shows "executeID (snd (convertStreamRunEvent lib wid st m)) = executeID st"
  using assms
  by (auto simp: convDefs
           split: option.splits WorkflowExecuteStatus.splits error.splits if_splits)

lemma step_drops:
  assumes "0 < sint (executeID st)" and "messageExecuteID m = Some e" and "e \<noteq> executeID st"
  shows "convertStreamRunEvent lib wid st m = (NoValue, st)"
  using assms
  by (auto simp: convDefs messageExecuteID_def split: option.splits)

lemma convertAll_Cons_cases:
  assumes "convertAll lib wid st (m # rest) = (outs, st1)"
  obtains (panic) p st' where "convertStreamRunEvent lib wid st m = (ConvertPanic p, st')"
      "outs = [ConvertPanic p]" "st1 = st'"
    | (go) r st' rs where "convertStreamRunEvent lib wid st m = (r, st')"
      "\<forall>p. r \<noteq> ConvertPanic p" "convertAll lib wid st' rest = (rs, st1)" "outs = r # rs"
  using assms
  by (cases "convertStreamRunEvent lib wid st m")
     (auto split: ConvertResult.splits prod.splits)

lemma convertAll_until_root:
  assumes "\<not> 0 < sint (executeID st)"
    and "\<forall>m \<in> set pre. \<not> establishesRoot m"
    and "StateMessage m0 = Some sm0" and "StateMessage.Status sm0 = WorkflowRunning"
    and "convertAll lib wid st (pre @ [m0]) = (outs0, st0)"
    and "length outs0 = length pre + 1"
  shows "executeID st0 = StateMessage.ExecuteID sm0 \<and> spaceID st0 = StateMessage.SpaceID sm0"
  using assms
proof (induction pre arbitrary: st outs0)
  case Nil
  then show ?case
    using step_establishes [of st m0 sm0 lib wid] by auto
next
  case (Cons m pre)
  from Cons.prems(5) have "convertAll lib wid st (m # (pre @ [m0])) = (outs0, st0)" by simp
  then show ?case
  proof (cases rule: convertAll_Cons_cases)
    case (panic p st')
    then show ?thesis using Cons.prems(6) by simp
  next
    case (go r st' rs)
    have "\<not> 0 < sint (executeID st')"
      using step_no_root [of st m lib wid] Cons.prems(1,2) go(1) by simp
    then show ?thesis
      using Cons.IH [of st' rs] Cons.prems go by simp
  qed
qed

lemma convertAll_after_root:
  assumes "0 < sint (executeID st)"
    and "convertAll lib wid st post = (outs, st1)"
  shows "executeID st1 = executeID st
         \<and> (\<forall>i < length outs. (\<exists>e. messageExecuteID (post ! i) = Some e \<and> e \<noteq> executeID st)
               \<longrightarrow> outs ! i = NoValue)"
  using assms
proof (induction post arbitrary: st outs)
  case Nil
  then show ?case by simp
next
  case (Cons m post)
  from Cons.prems(2) show ?case
  proof (cases rule: convertAll_Cons_cases)
    case (panic p st')
    have "executeID st' = executeID st"
      using step_keeps_root [OF Cons.prems(1), of lib wid m] panic(1) by simp
    moreover have "\<not> (\<exists>e. messageExecuteID m = Some e \<and> e \<noteq> executeID st)"
      using step_drops [OF Cons.prems(1), of m _ lib wid] panic(1) by auto
    ultimately show ?thesis using panic by simp
  next
    case (go r st' rs)
    have root: "executeID st' = executeID st"
      using step_keeps_root [OF Cons.prems(1), of lib wid m] go(1) by simp
    then have pos: "0 < sint (executeID st')" using Cons.prems(1) by simp
    have first: "(\<exists>e. messageExecuteID m = Some e \<and> e \<noteq> executeID st) \<longrightarrow> r = NoValue"
      using step_drops [OF Cons.prems(1), of m _ lib wid] go(1) by auto
    have ih: "executeID st1 = executeID st'
         \<and> (\<forall>i < length rs. (\<exists>e. messageExecuteID (post ! i) = Some e \<and> e \<noteq> executeID st')
               \<longrightarrow> rs ! i = NoValue)"
      using Cons.IH [OF pos go(3)] .
    show ?thesis
    proof (intro conjI allI impI)
      show "executeID st1 = executeID st" using ih root by simp
    next
      fix i assume i: "i < length outs"
        and d: "\<exists>e. messageExecuteID ((m # post) ! i) = Some e \<and> e \<noteq> executeID st"
      show "outs ! i = NoValue"
      proof (cases i)
        case 0
        then show ?thesis using first d go(4) by simp
      next
        case (Suc j)
        then show ?thesis using ih d i go(4) root by simp
      qed
    qed
  qed
qed

lemma convertAll_single:
  "\<exists>r st'. convertAll lib wid st [m] = ([r], st')"
  by (cases "convertStreamRunEvent lib wid st m") (auto split: ConvertResult.splits)

lemmas eventNames = MessageEvent_def DoneEvent_def ErrEvent_def InterruptEventName_def

lemma state_seq:
  assumes "convertStateMessage lib wid st sm = (r, st')"
  shows "nodeID2Seq st' = nodeID2Seq st \<and> \<not> isAnswerFor n r"
proof (cases "0 < sint (executeID st) \<and> executeID st \<noteq> StateMessage.ExecuteID sm")
  case True
  then show ?thesis using assms by (auto simp: convertStateMessage_def isAnswerFor_def)
next
  case False
  show ?thesis
  proof (cases "StateMessage.Status sm")
    case WorkflowRunning
    then show ?thesis using assms False by (auto simp: convertStateMessage_def isAnswerFor_def)
  next
    case WorkflowSuccess
    then show ?thesis using assms False
      by (auto simp: convertStateMessage_def isAnswerFor_def bumpMessageID_def eventNames emptyResponse_def Let_def)
  next
    case WorkflowFailed
    then show ?thesis using assms False
      by (auto simp: convertStateMessage_def isAnswerFor_def bumpMessageID_def eventNames emptyResponse_def Let_def
               split: option.splits error.splits)
  next
    case WorkflowCancel
    then show ?thesis using assms False
      by (auto simp: convertStateMessage_def isAnswerFor_def bumpMessageID_def eventNames emptyResponse_def Let_def
               split: option.splits error.splits)
  next
    case WorkflowInterrupted
    then show ?thesis using assms False
      by (auto simp: convertStateMessage_def isAnswerFor_def bumpMessageID_def eventNames emptyResponse_def Let_def
               split: option.splits)
  next
    case (WorkflowStatusOther x)
    then show ?thesis using assms False by (auto simp: convertStateMessage_def isAnswerFor_def)
  qed
qed

lemma data_seq:
  assumes "convertDataMessage lib st dm = (r, st')"
  shows "seqOf st' n = seqOf st n + (if isAnswerFor n r then 1 else 0)"
  using assms
  by (auto simp: convertDataMessage_def bumpMessageID_def Let_def seqOf_def isAnswerFor_def
                 eventNames emptyResponse_def
           split: option.splits if_splits)

lemma step_seq:
  assumes "convertStreamRunEvent lib wid st m = (r, st')"
  shows "seqOf st' n = seqOf st n + (if isAnswerFor n r then 1 else 0)"
proof (cases "StateMessage m")
  case (Some sm)
  then show ?thesis
    using assms state_seq [of lib wid st sm r st' n] by (simp add: convertStreamRunEvent_def seqOf_def)
next
  case None
  show ?thesis
  proof (cases "DataMessage m")
    case (Some dm)
    then show ?thesis
      using assms None data_seq [of lib st dm r st' n] by (simp add: convertStreamRunEvent_def)
  next
    case nodata: None
    then show ?thesis
      using assms None
      by (auto simp: convertStreamRunEvent_def bumpMessageID_def seqOf_def isAnswerFor_def)
  qed
qed

lemma convertAll_seq:
  assumes "convertAll lib wid st msgs = (outs, st1)"
  shows "seqOf st1 n = seqOf st n + word_of_nat (answerCount n outs)"
  using assms
proof (induction msgs arbitrary: st outs)
  case Nil
  then show ?case by (simp add: answerCount_def)
next
  case (Cons m msgs)
  from Cons.prems show ?case
  proof (cases rule: convertAll_Cons_cases)
    case (panic p st')
    then show ?thesis
      using step_seq [OF panic(1), of n] by (simp add: answerCount_def isAnswerFor_def)
  next
    case (go r st' rs)
    show ?thesis
      using step_seq [OF go(1), of n] Cons.IH [OF go(3)] go(4)
      by (simp add: answerCount_def)
  qed
qed

lemma data_answer:
  assumes "DataMessage.Type dm = Answer"
    and "\<not> (0 < sint (executeID st) \<and> executeID st \<noteq> DataMessage.ExecuteID dm)"
  shows "\<exists>ev. fst (convertDataMessage lib st dm) = Emit ev
             \<and> Event ev = MessageEvent
             \<and> OpenAPIStreamRunFlowResponse.NodeTitle ev = Some (DataMessage.NodeTitle dm)
             \<and> OpenAPIStreamRunFlowResponse.Content ev = Some (DataMessage.Content dm)
             \<and> NodeIsFinish ev = Some (Last dm)
             \<and> OpenAPIStreamRunFlowResponse.Token ev
                 = map_option (\<lambda>u. TokenUsage.InputTokens u + TokenUsage.OutputTokens u) (Usage dm)
             \<and> OpenAPIStreamRunFlowResponse.NodeID ev = Some (DataMessage.NodeID dm)
             \<and> NodeSeqID ev = Some (FormatInt (seqOf st (DataMessage.NodeID dm)))"
  using assms
  by (simp add: convertDataMessage_def Let_def seqOf_def emptyResponse_def)

lemma data_other:
  assumes "DataMessage.Type dm \<noteq> Answer"
  shows "convertDataMessage lib st dm = (NoValue, st)"
  using assms by (simp add: convertDataMessage_def)

text \<open>
  C7, as stated, lets the first \<open>Running\<close> state message establish the root whatever its
  execution id. The converter takes an execution id as the root only when it is positive
  (the guard \<open>executeID > 0\<close>): after a \<open>Running\<close> message with execution id 0, an answer of
  execution 5 is emitted.
\<close>

theorem convertAll_unset_root_counterexample:
  "map messageExecuteID
      [exampleStateMessage 0 WorkflowRunning None, exampleDataMessage 5 Answer ''900001'']
     = [Some 0, Some 5]
   \<and> map (map_option Event \<circ> clientEvent)
        (fst (convertAll exampleLib 7 initConvState
           [exampleStateMessage 0 WorkflowRunning None, exampleDataMessage 5 Answer ''900001'']))
     = [None, Some ''Message'']
   \<and> executeID (snd (convertAll exampleLib 7 initConvState
           [exampleStateMessage 0 WorkflowRunning None])) = 0"
  by code_simp

text \<open>
  C7, amended. In every message sequence, the first state message \<open>Running\<close> with a
  positive execution id, once the converter reaches it, establishes the root execution
  id and the space id of the stream. From then on the root stays, and every message whose
  execution id (of its state message, else of its data message) differs from the root
  gives \<open>ErrNoValue\<close>: no client event.
\<close>

theorem convertAll_root_filter:
  assumes "\<forall>m \<in> set pre. \<not> establishesRoot m"
    and "StateMessage m0 = Some sm0" and "StateMessage.Status sm0 = WorkflowRunning"
    and "0 < sint (StateMessage.ExecuteID sm0)"
    and "convertAll lib wid initConvState (pre @ [m0]) = (outs0, st0)"
    and "length outs0 = length pre + 1"
  shows "executeID st0 = StateMessage.ExecuteID sm0 \<and> spaceID st0 = StateMessage.SpaceID sm0
     \<and> (\<forall>post outs st1. convertAll lib wid st0 post = (outs, st1) \<longrightarrow>
           executeID st1 = StateMessage.ExecuteID sm0
           \<and> (\<forall>i < length outs.
                 (\<exists>e. messageExecuteID (post ! i) = Some e \<and> e \<noteq> StateMessage.ExecuteID sm0)
                 \<longrightarrow> outs ! i = NoValue))"
proof -
  have init: "\<not> 0 < sint (executeID initConvState)"
    by (simp add: initConvState_def)
  have root: "executeID st0 = StateMessage.ExecuteID sm0 \<and> spaceID st0 = StateMessage.SpaceID sm0"
    using convertAll_until_root [OF init assms(1,2,3,5,6)] .
  then have pos: "0 < sint (executeID st0)" using assms(4) by simp
  show ?thesis
    using root convertAll_after_root [OF pos] by simp
qed

theorem convertAll_root_filter_witness:
  "establishesRoot (exampleStateMessage 42 WorkflowRunning None)
   \<and> fst (convertAll exampleLib 7
            (snd (convertAll exampleLib 7 initConvState [exampleStateMessage 42 WorkflowRunning None]))
            [exampleDataMessage 43 Answer ''900001'']) = [NoValue]"
proof -
  define m0 where "m0 = exampleStateMessage 42 WorkflowRunning None"
  define d where "d = exampleDataMessage 43 Answer ''900001''"
  obtain r0 st0 where c0: "convertAll exampleLib 7 initConvState [m0] = ([r0], st0)"
    using convertAll_single by blast
  obtain r st1 where c1: "convertAll exampleLib 7 st0 [d] = ([r], st1)"
    using convertAll_single by blast
  obtain sm0 where sm0: "StateMessage m0 = Some sm0" "StateMessage.Status sm0 = WorkflowRunning"
      "StateMessage.ExecuteID sm0 = 42"
    by (simp add: m0_def exampleStateMessage_def)
  have pos: "0 < sint (StateMessage.ExecuteID sm0)" by (simp add: sm0(3))
  have est: "establishesRoot m0"
    by (simp add: establishesRoot_def sm0)
  have pre: "\<forall>m \<in> set ([] :: Message list). \<not> establishesRoot m" by simp
  have c0': "convertAll exampleLib 7 initConvState ([] @ [m0]) = ([r0], st0)"
    using c0 by simp
  have len: "length [r0] = length ([] :: Message list) + 1" by simp
  note filt = convertAll_root_filter [OF pre sm0(1,2) pos c0' len]
  have differs: "\<exists>e. messageExecuteID ([d] ! 0) = Some e \<and> e \<noteq> StateMessage.ExecuteID sm0"
    by (simp add: d_def messageExecuteID_def exampleDataMessage_def sm0(3))
  have "[r] ! 0 = NoValue"
    using filt [THEN conjunct2, THEN conjunct2, rule_format, OF c1, THEN conjunct2, rule_format, of 0]
      differs by simp
  then have "fst (convertAll exampleLib 7 st0 [d]) = [NoValue]" using c1 by simp
  moreover have "snd (convertAll exampleLib 7 initConvState [m0]) = st0" using c0 by simp
  ultimately show ?thesis using est by (simp add: m0_def d_def)
qed

text \<open>
  C8. In the state that the converter has reached on any message sequence, a data message
  of a kind other than \<open>Answer\<close> (\<open>FunctionCall\<close>, \<open>ToolResponse\<close>) gives no client event
  and leaves the state as it is. A data message of kind \<open>Answer\<close> that the root filter lets
  through gives exactly one \<open>Message\<close> event carrying the node title, the content, the
  node-finish flag, the token usage (input plus output tokens, when usage is present) and
  the node id, with the sequence number of the node: the number of \<open>Message\<close> events
  emitted for that node so far, so 0 for its first chunk and one more for each next chunk.
\<close>

theorem convertStreamRunEvent_data:
  assumes "convertAll lib wid initConvState msgs = (outs, st)"
    and "StateMessage m = None" and "DataMessage m = Some dm"
  shows "(DataMessage.Type dm \<noteq> Answer \<longrightarrow> convertStreamRunEvent lib wid st m = (NoValue, st))
     \<and> (DataMessage.Type dm = Answer
          \<and> \<not> (0 < sint (executeID st) \<and> executeID st \<noteq> DataMessage.ExecuteID dm) \<longrightarrow>
          (\<exists>ev. fst (convertStreamRunEvent lib wid st m) = Emit ev
             \<and> Event ev = MessageEvent
             \<and> OpenAPIStreamRunFlowResponse.NodeTitle ev = Some (DataMessage.NodeTitle dm)
             \<and> OpenAPIStreamRunFlowResponse.Content ev = Some (DataMessage.Content dm)
             \<and> NodeIsFinish ev = Some (Last dm)
             \<and> OpenAPIStreamRunFlowResponse.Token ev
                 = map_option (\<lambda>u. TokenUsage.InputTokens u + TokenUsage.OutputTokens u) (Usage dm)
             \<and> OpenAPIStreamRunFlowResponse.NodeID ev = Some (DataMessage.NodeID dm)
             \<and> NodeSeqID ev
                 = Some (FormatInt (word_of_nat (answerCount (DataMessage.NodeID dm) outs)))))"
proof -
  have seq: "seqOf st (DataMessage.NodeID dm) = word_of_nat (answerCount (DataMessage.NodeID dm) outs)"
    using convertAll_seq [OF assms(1), of "DataMessage.NodeID dm"]
    by (simp add: seqOf_def initConvState_def)
  have conv: "convertStreamRunEvent lib wid st m = convertDataMessage lib st dm"
    using assms(2,3) by (simp add: convertStreamRunEvent_def)
  show ?thesis
    using data_answer [of dm st lib] data_other [of dm lib st] conv seq by auto
qed

theorem convertStreamRunEvent_data_witness:
  "(\<exists>ev. fst (convertStreamRunEvent exampleLib 7
              (snd (convertAll exampleLib 7 initConvState
                 [exampleStateMessage 42 WorkflowRunning None,
                  exampleDataMessage 42 Answer ''900001'',
                  exampleDataMessage 42 Answer ''800001'']))
              (exampleDataMessage 42 Answer ''900001'')) = Emit ev
         \<and> NodeSeqID ev = Some ''1''
         \<and> OpenAPIStreamRunFlowResponse.Token ev = Some 7)
   \<and> fst (convertStreamRunEvent exampleLib 7
              (snd (convertAll exampleLib 7 initConvState
                 [exampleStateMessage 42 WorkflowRunning None,
                  exampleDataMessage 42 Answer ''900001'',
                  exampleDataMessage 42 Answer ''800001'']))
              (exampleDataMessage 42 ToolResponse ''900001'')) = NoValue"
proof -
  define msgs where "msgs = [exampleStateMessage 42 WorkflowRunning None,
                  exampleDataMessage 42 Answer ''900001'',
                  exampleDataMessage 42 Answer ''800001'']"
  obtain outs st where c: "convertAll exampleLib 7 initConvState msgs = (outs, st)"
    by (cases "convertAll exampleLib 7 initConvState msgs") auto
  have cnt: "answerCount ''900001'' (fst (convertAll exampleLib 7 initConvState msgs)) = 1"
    unfolding msgs_def by code_simp
  have root: "executeID (snd (convertAll exampleLib 7 initConvState msgs)) = 42"
    unfolding msgs_def by code_simp
  have one: "FormatInt 1 = ''1''" by code_simp
  obtain dm where dm: "DataMessage (exampleDataMessage 42 Answer ''900001'') = Some dm"
      "StateMessage (exampleDataMessage 42 Answer ''900001'') = None"
      "DataMessage.Type dm = Answer" "DataMessage.ExecuteID dm = 42" "DataMessage.NodeID dm = ''900001''"
      "Usage dm = Some \<lparr> TokenUsage.InputTokens = 3, OutputTokens = 4 \<rparr>"
    by (simp add: exampleDataMessage_def)
  obtain tm where tm: "DataMessage (exampleDataMessage 42 ToolResponse ''900001'') = Some tm"
      "StateMessage (exampleDataMessage 42 ToolResponse ''900001'') = None"
      "DataMessage.Type tm = ToolResponse"
    by (simp add: exampleDataMessage_def)
  have a: "\<exists>ev. fst (convertStreamRunEvent exampleLib 7 st (exampleDataMessage 42 Answer ''900001'')) = Emit ev
         \<and> NodeSeqID ev = Some ''1'' \<and> OpenAPIStreamRunFlowResponse.Token ev = Some 7"
    using convertStreamRunEvent_data [OF c dm(2,1)] dm(3,4,5,6) cnt root c one by auto
  have b: "fst (convertStreamRunEvent exampleLib 7 st (exampleDataMessage 42 ToolResponse ''900001'')) = NoValue"
    using convertStreamRunEvent_data [OF c tm(2,1)] tm(3) by simp
  show ?thesis using a b c by (simp add: msgs_def)
qed

section \<open>The correlation key of an interrupt\<close>









lemma WrapIfNeeded_ErrorString [simp]:
  "WrapIfNeeded code (ErrorString m) = WorkflowError code [] (Some (ErrorString m))"
  by (simp add: WrapIfNeeded_def)



section \<open>The execute operations\<close>

lemma WrapIfNeeded_bothIDsError [simp]:
  "WrapIfNeeded code bothIDsError = WorkflowError code [] (Some bothIDsError)"
  by (simp add: bothIDsError_def)

lemma parseIfSet_Return: "parseIfSet p = Return x \<Longrightarrow> (x = None) = (p = None)"
  by (auto simp: parseIfSet_def bindR_def split: option.splits result.splits)

lemma bindR_Return: "bindR r f = Return y \<Longrightarrow> \<exists>x. r = Return x \<and> f x = Return y"
  by (cases r) (simp_all add: bindR_def)

lemma testRunConfig_ids:
  assumes "testRunConfig svc req = Return cfg"
  shows "(ExecuteConfig.AppID cfg = None) = (WorkFlowTestRunRequest.ProjectID req = None)
       \<and> (AgentID cfg = None) = (WorkFlowTestRunRequest.BotID req = None)"
proof -
  from assms obtain uID sid u appID agentID wfID where
      "parseIfSet (WorkFlowTestRunRequest.ProjectID req) = Return appID"
      "parseIfSet (WorkFlowTestRunRequest.BotID req) = Return agentID"
      "ExecuteConfig.AppID cfg = appID" "AgentID cfg = agentID"
    unfolding testRunConfig_def
    by (auto dest!: bindR_Return)
  then show ?thesis using parseIfSet_Return by metis
qed

lemma nodeDebugConfig_ids:
  assumes "nodeDebugConfig svc req = Return cfg"
  shows "(ExecuteConfig.AppID cfg = None) = (WorkflowNodeDebugV2Request.ProjectID req = None)
       \<and> (AgentID cfg = None) = (WorkflowNodeDebugV2Request.BotID req = None)"
proof -
  from assms obtain appID agentID where
      "parseIfSet (WorkflowNodeDebugV2Request.ProjectID req) = Return appID"
      "parseIfSet (WorkflowNodeDebugV2Request.BotID req) = Return agentID"
      "ExecuteConfig.AppID cfg = appID" "AgentID cfg = agentID"
    unfolding nodeDebugConfig_def
    by (auto dest!: bindR_Return)
  then show ?thesis using parseIfSet_Return by metis
qed

lemma openAPIConfig_ids:
  assumes "openAPIConfig svc req tt sp = Return (meta, cfg, ps)"
  shows "(ExecuteConfig.AppID cfg = None)
           = (OpenAPIRunFlowRequest.AppID req = None \<and> OpenAPIRunFlowRequest.ProjectID req = None)
       \<and> (AgentID cfg = None) = (OpenAPIRunFlowRequest.BotID req = None)"
proof -
  from assms obtain appID agentID where
      "(case OpenAPIRunFlowRequest.AppID req of
                  Some a \<Rightarrow> parseIfSet (Some a)
                | None \<Rightarrow> parseIfSet (OpenAPIRunFlowRequest.ProjectID req)) = Return appID"
      "parseIfSet (OpenAPIRunFlowRequest.BotID req) = Return agentID"
      "ExecuteConfig.AppID cfg = appID" "AgentID cfg = agentID"
    unfolding openAPIConfig_def
    by (auto simp: Let_def dest!: bindR_Return split: option.splits)
  then show ?thesis
    using parseIfSet_Return [of "OpenAPIRunFlowRequest.BotID req" agentID]
      parseIfSet_Return [of "OpenAPIRunFlowRequest.ProjectID req" appID]
      parseIfSet_Return [of "OpenAPIRunFlowRequest.AppID req" appID]
    by (auto split: option.splits)
qed

lemma TestRun_both:
  assumes "WorkFlowTestRunRequest.ProjectID req \<noteq> None" and "WorkFlowTestRunRequest.BotID req \<noteq> None"
  shows "\<exists>e. TestRun svc req w = (Inl e, w)
           \<and> (\<forall>cfg. testRunConfig svc req = Return cfg \<longrightarrow>
                  e = WorkflowError ErrWorkflowExecuteFail [] (Some bothIDsError))"
proof (cases "testRunConfig svc req")
  case (Return cfg)
  then have "ExecuteConfig.AppID cfg \<noteq> None \<and> AgentID cfg \<noteq> None"
    using testRunConfig_ids [OF Return] assms by simp
  then show ?thesis
    using Return by (simp add: TestRun_def TestRunBody_def deferRecover_def)
next
  case (Fail e)
  then show ?thesis by (simp add: TestRun_def TestRunBody_def deferRecover_def)
next
  case (Panic p)
  then show ?thesis by (simp add: TestRun_def TestRunBody_def deferRecover_def)
qed

lemma NodeDebug_both:
  assumes "WorkflowNodeDebugV2Request.ProjectID req \<noteq> None"
    and "WorkflowNodeDebugV2Request.BotID req \<noteq> None"
  shows "\<exists>e. NodeDebug svc req w = (Inl e, w)
           \<and> (\<forall>cfg. nodeDebugConfig svc req = Return cfg \<longrightarrow>
                  e = WorkflowError ErrWorkflowExecuteFail [] (Some bothIDsError))"
proof (cases "nodeDebugConfig svc req")
  case (Return cfg)
  then have "ExecuteConfig.AppID cfg \<noteq> None \<and> AgentID cfg \<noteq> None"
    using nodeDebugConfig_ids [OF Return] assms by simp
  then show ?thesis
    using Return by (simp add: NodeDebug_def NodeDebugBody_def deferRecover_def)
next
  case (Fail e)
  then show ?thesis by (simp add: NodeDebug_def NodeDebugBody_def deferRecover_def)
next
  case (Panic p)
  then show ?thesis by (simp add: NodeDebug_def NodeDebugBody_def deferRecover_def)
qed

lemma openAPIPrepare_both_Fail:
  assumes "OpenAPIRunFlowRequest.AppID req \<noteq> None \<or> OpenAPIRunFlowRequest.ProjectID req \<noteq> None"
    and "OpenAPIRunFlowRequest.BotID req \<noteq> None"
    and "openAPIConfig svc req tt sp = Return x"
  shows "openAPIPrepare svc req tt sp = Fail bothIDsError"
proof -
  obtain meta cfg ps where x: "x = (meta, cfg, ps)" by (cases x) auto
  have "ExecuteConfig.AppID cfg \<noteq> None \<and> AgentID cfg \<noteq> None"
    using openAPIConfig_ids [of svc req tt sp meta cfg ps] assms x by auto
  then show ?thesis using assms(3) x by (simp add: openAPIPrepare_def bindR_def)
qed

lemma openAPIPrepare_both:
  assumes "OpenAPIRunFlowRequest.AppID req \<noteq> None \<or> OpenAPIRunFlowRequest.ProjectID req \<noteq> None"
    and "OpenAPIRunFlowRequest.BotID req \<noteq> None"
  shows "(\<exists>p. openAPIPrepare svc req tt sp = Panic p) \<or> (\<exists>e. openAPIPrepare svc req tt sp = Fail e)"
proof (cases "openAPIConfig svc req tt sp")
  case (Return x)
  then show ?thesis using openAPIPrepare_both_Fail [OF assms Return] by simp
next
  case (Fail e)
  then show ?thesis by (simp add: openAPIPrepare_def bindR_def)
next
  case (Panic p)
  then show ?thesis by (simp add: openAPIPrepare_def bindR_def)
qed

lemma OpenAPIRun_both:
  assumes "OpenAPIRunFlowRequest.AppID req \<noteq> None \<or> OpenAPIRunFlowRequest.ProjectID req \<noteq> None"
    and "OpenAPIRunFlowRequest.BotID req \<noteq> None"
  shows "\<exists>e. OpenAPIRun lib svc req w = (Inl e, w)
           \<and> (\<forall>x. openAPIConfig svc req None None = Return x \<longrightarrow>
                  e = WorkflowError ErrWorkflowExecuteFail [] (Some bothIDsError))"
  using openAPIPrepare_both [OF assms, of svc None None]
    openAPIPrepare_both_Fail [OF assms, of svc None None]
  by (auto simp: OpenAPIRun_def OpenAPIRunBody_def deferRecover_def)

lemma OpenAPIStreamRun_both:
  assumes "OpenAPIRunFlowRequest.AppID req \<noteq> None \<or> OpenAPIRunFlowRequest.ProjectID req \<noteq> None"
    and "OpenAPIRunFlowRequest.BotID req \<noteq> None"
  shows "\<exists>e. OpenAPIStreamRun svc req w = (Inl e, w)
           \<and> (\<forall>x. openAPIConfig svc req (Some TaskTypeForeground) (Some SyncPatternStream) = Return x \<longrightarrow>
                  e = WorkflowError ErrWorkflowExecuteFail [] (Some bothIDsError))"
  using openAPIPrepare_both [OF assms, of svc "Some TaskTypeForeground" "Some SyncPatternStream"]
    openAPIPrepare_both_Fail [OF assms, of svc "Some TaskTypeForeground" "Some SyncPatternStream"]
  by (auto simp: OpenAPIStreamRun_def OpenAPIStreamRunBody_def deferRecover_def)

text \<open>
  C5. A request to \<open>TestRun\<close>, \<open>NodeDebug\<close>, \<open>OpenAPIRun\<close> or \<open>OpenAPIStreamRun\<close> in which
  both the project id (for the OpenAPI operations: the app id or the project id) and the
  bot id are set fails, and leaves the state of the domain as it was, whatever the
  domain's \<open>AsyncExecute\<close>, \<open>AsyncExecuteNode\<close>, \<open>SyncExecute\<close> and \<open>StreamExecute\<close> would
  do to it: none of them is called, no execution is created. When the request gets as
  far as its config (no earlier check fails or panics), the error is the validation error
  \<open>project_id and bot_id cannot be set at the same time\<close>, wrapped by the deferred function
  of the operation.
\<close>

theorem both_ids_rejected:
  "(WorkFlowTestRunRequest.ProjectID r1 \<noteq> None \<and> WorkFlowTestRunRequest.BotID r1 \<noteq> None \<longrightarrow>
      (\<exists>e. TestRun svc r1 w = (Inl e, w)
         \<and> (\<forall>cfg. testRunConfig svc r1 = Return cfg \<longrightarrow>
                e = WorkflowError ErrWorkflowExecuteFail [] (Some bothIDsError))))
   \<and> (WorkflowNodeDebugV2Request.ProjectID r2 \<noteq> None \<and> WorkflowNodeDebugV2Request.BotID r2 \<noteq> None \<longrightarrow>
      (\<exists>e. NodeDebug svc r2 w = (Inl e, w)
         \<and> (\<forall>cfg. nodeDebugConfig svc r2 = Return cfg \<longrightarrow>
                e = WorkflowError ErrWorkflowExecuteFail [] (Some bothIDsError))))
   \<and> ((OpenAPIRunFlowRequest.AppID r3 \<noteq> None \<or> OpenAPIRunFlowRequest.ProjectID r3 \<noteq> None)
        \<and> OpenAPIRunFlowRequest.BotID r3 \<noteq> None \<longrightarrow>
      (\<exists>e. OpenAPIRun lib svc r3 w = (Inl e, w)
         \<and> (\<forall>x. openAPIConfig svc r3 None None = Return x \<longrightarrow>
                e = WorkflowError ErrWorkflowExecuteFail [] (Some bothIDsError)))
      \<and> (\<exists>e. OpenAPIStreamRun svc r3 w = (Inl e, w)
         \<and> (\<forall>x. openAPIConfig svc r3 (Some TaskTypeForeground) (Some SyncPatternStream) = Return x \<longrightarrow>
                e = WorkflowError ErrWorkflowExecuteFail [] (Some bothIDsError))))"
  using TestRun_both [of r1 svc w] NodeDebug_both [of r2 svc w]
    OpenAPIRun_both [of r3 lib svc w] OpenAPIStreamRun_both [of r3 svc w]
  by blast

lemma FormatInt_examples:
  "FormatInt 7 = ''7''" "FormatInt 1 = ''1''" "FormatInt 11 = ''11''" "FormatInt 12 = ''12''"
  by code_simp+

lemma ParseInt_examples:
  "ParseInt ''7'' = Inr 7" "ParseInt ''1'' = Inr 1" "ParseInt ''11'' = Inr 11" "ParseInt ''12'' = Inr 12"
  using ParseInt_FormatInt [of 7] ParseInt_FormatInt [of 1] ParseInt_FormatInt [of 11]
    ParseInt_FormatInt [of 12]
  unfolding FormatInt_examples by simp_all

lemmas prepareDefs =
  bindR_def liftE_def mustParseInt64_def parseIfSet_def checkUserSpace_def MustGetUIDFromCtx_def
  GetApiAuthFromCtx_def FromOrDefault_def Let_def ParseInt_examples

lemma example_configs:
  "\<exists>cfg. testRunConfig (exampleSvc msgs exe) exampleTestRunRequest = Return cfg"
  "\<exists>cfg. nodeDebugConfig (exampleSvc msgs exe) exampleNodeDebugRequest = Return cfg"
  "\<exists>x. openAPIConfig (exampleSvc msgs exe) (exampleRunRequest p b) tt sp = Return x"
    if "p = None \<or> p = Some ''11''" "b = None \<or> b = Some ''12''"
  using that
  by (auto simp: testRunConfig_def nodeDebugConfig_def openAPIConfig_def exampleSvc_def
        exampleTestRunRequest_def exampleNodeDebugRequest_def exampleRunRequest_def prepareDefs)

theorem both_ids_rejected_witness:
  "TestRun (exampleSvc [] exampleInterrupted) exampleTestRunRequest 0
     = (Inl (WorkflowError ErrWorkflowExecuteFail [] (Some bothIDsError)), 0)
   \<and> NodeDebug (exampleSvc [] exampleInterrupted) exampleNodeDebugRequest 0
     = (Inl (WorkflowError ErrWorkflowExecuteFail [] (Some bothIDsError)), 0)
   \<and> OpenAPIRun exampleLib (exampleSvc [] exampleInterrupted)
        (exampleRunRequest (Some ''11'') (Some ''12'')) 0
     = (Inl (WorkflowError ErrWorkflowExecuteFail [] (Some bothIDsError)), 0)
   \<and> OpenAPIStreamRun (exampleSvc [] exampleInterrupted)
        (exampleRunRequest (Some ''11'') (Some ''12'')) 0
     = (Inl (WorkflowError ErrWorkflowExecuteFail [] (Some bothIDsError)), 0)"
proof -
  let ?svc = "exampleSvc [] exampleInterrupted"
  let ?r3 = "exampleRunRequest (Some ''11'') (Some ''12'')"
  note T = both_ids_rejected [of exampleTestRunRequest ?svc "0 :: nat" exampleNodeDebugRequest
      ?r3 exampleLib]
  have h1: "WorkFlowTestRunRequest.ProjectID exampleTestRunRequest \<noteq> None
      \<and> WorkFlowTestRunRequest.BotID exampleTestRunRequest \<noteq> None"
    by (simp add: exampleTestRunRequest_def)
  have h2: "WorkflowNodeDebugV2Request.ProjectID exampleNodeDebugRequest \<noteq> None
      \<and> WorkflowNodeDebugV2Request.BotID exampleNodeDebugRequest \<noteq> None"
    by (simp add: exampleNodeDebugRequest_def)
  have h3: "(OpenAPIRunFlowRequest.AppID ?r3 \<noteq> None \<or> OpenAPIRunFlowRequest.ProjectID ?r3 \<noteq> None)
        \<and> OpenAPIRunFlowRequest.BotID ?r3 \<noteq> None"
    by (simp add: exampleRunRequest_def)
  have a: "TestRun ?svc exampleTestRunRequest 0
     = (Inl (WorkflowError ErrWorkflowExecuteFail [] (Some bothIDsError)), 0)"
    using T [THEN conjunct1, rule_format, OF h1] example_configs(1) [of None None "[]" exampleInterrupted]
    by auto
  have b: "NodeDebug ?svc exampleNodeDebugRequest 0
     = (Inl (WorkflowError ErrWorkflowExecuteFail [] (Some bothIDsError)), 0)"
    using T [THEN conjunct2, THEN conjunct1, rule_format, OF h2]
      example_configs(2) [of None None "[]" exampleInterrupted]
    by auto
  have c: "OpenAPIRun exampleLib ?svc ?r3 0
     = (Inl (WorkflowError ErrWorkflowExecuteFail [] (Some bothIDsError)), 0)"
    using T [THEN conjunct2, THEN conjunct2, rule_format, OF h3, THEN conjunct1]
      example_configs(3) [of "Some ''11''" "Some ''12''" "[]" exampleInterrupted None None]
    by auto
  have d: "OpenAPIStreamRun ?svc ?r3 0
     = (Inl (WorkflowError ErrWorkflowExecuteFail [] (Some bothIDsError)), 0)"
    using T [THEN conjunct2, THEN conjunct2, rule_format, OF h3, THEN conjunct2]
      example_configs(3) [of "Some ''11''" "Some ''12''" "[]" exampleInterrupted
        "Some TaskTypeForeground" "Some SyncPatternStream"]
    by auto
  show ?thesis using a b c d by blast
qed

text \<open>
  C4. A synchronous \<open>OpenAPIRun\<close> (\<open>IsAsync\<close> unset or false) that gets as far as
  \<open>SyncExecute\<close>, and whose execution comes back with status \<open>Interrupted\<close>, returns the
  typed error \<open>InterruptNotSupported\<close> (which the deferred function surfaces as it is) and
  no response object.
\<close>

theorem OpenAPIRun_sync_interrupted:
  assumes "openAPIPrepare svc req None None = Return (meta, exeCfg, parameters)"
    and "FromOrDefault (IsAsync req) False = False"
    and "SyncExecute svc
           (exeCfg\<lparr>SyncPattern := Some SyncPatternSync, TaskType := Some TaskTypeForeground\<rparr>)
           parameters w = (Inr (wfExe, tPlan), w')"
    and "WorkflowExecution.Status wfExe = WorkflowInterrupted"
  shows "OpenAPIRun lib svc req w = (Inl (NewError ErrInterruptNotSupported), w')"
  using assms
  by (simp add: OpenAPIRun_def OpenAPIRunBody_def syncRunResponse_def deferRecover_def
        WrapIfNeeded_def NewError_def)

theorem OpenAPIRun_sync_interrupted_witness:
  "WorkflowExecution.Status exampleInterrupted = WorkflowInterrupted
   \<and> OpenAPIRun exampleLib (exampleSvc [] exampleInterrupted) (exampleRunRequest None None) 0
       = (Inl (WorkflowError ErrInterruptNotSupported [] None), 1)"
proof -
  let ?svc = "exampleSvc [] exampleInterrupted"
  let ?req = "exampleRunRequest None None"
  obtain x where x: "openAPIConfig ?svc ?req None None = Return x"
    using example_configs(3) [of None None "[]" exampleInterrupted None None] by auto
  obtain meta cfg ps where m: "x = (meta, cfg, ps)" by (cases x) auto
  have ids: "ExecuteConfig.AppID cfg = None"
    using openAPIConfig_ids [of ?svc ?req None None meta cfg ps] x m
    by (simp add: exampleRunRequest_def)
  have prep: "openAPIPrepare ?svc ?req None None = Return (meta, cfg, ps)"
    using x m ids by (simp add: openAPIPrepare_def bindR_def)
  have sync: "FromOrDefault (IsAsync ?req) False = False"
    by (simp add: exampleRunRequest_def FromOrDefault_def)
  have exec: "SyncExecute ?svc
           (cfg\<lparr>SyncPattern := Some SyncPatternSync, TaskType := Some TaskTypeForeground\<rparr>)
           ps 0 = (Inr (exampleInterrupted, ReturnVariables), 1)"
    by (simp add: exampleSvc_def)
  have st: "WorkflowExecution.Status exampleInterrupted = WorkflowInterrupted"
    by (simp add: exampleInterrupted_def)
  show ?thesis
    using OpenAPIRun_sync_interrupted [OF prep sync exec st, of exampleLib] st
    by (simp add: NewError_def)
qed

section \<open>Panics and the stream\<close>

lemma recvFrom_failed_untyped:
  "fst (recvFrom exampleLib 7 initConvState exampleFailedUntyped)
     = RecvPanic (ErrorString ''stream run last error is not a WorkflowError'')"
  by (simp add: exampleFailedUntyped_def exampleStateMessage_def convertStreamRunEvent_def
        convertStateMessage_def initConvState_def bumpMessageID_def Let_def)

lemma OpenAPIStreamRun_example:
  "OpenAPIStreamRun (exampleSvc msgs exe) (exampleRunRequest None None) 0
     = (Inr \<lparr> source = msgs, convWorkflowID = 7, convState = initConvState \<rparr>, 1)"
  by (simp add: OpenAPIStreamRun_def OpenAPIStreamRunBody_def openAPIPrepare_def openAPIConfig_def
        exampleSvc_def exampleRunRequest_def prepareDefs deferRecover_def)

lemma ParseInt_letter: "ParseInt ''x'' = Inl ErrSyntax"
  by (simp add: ParseInt_def ParseUint_def isDigit_def)

text \<open>
  C3. A panic raised while an operation is served should be recovered at the boundary of
  the operation and come back to the caller as an execute-failure error with its cause,
  also for the events of the stream that \<open>OpenAPIStreamRun\<close> returns. Inside the operation
  this holds: the panic of \<open>mustParseInt64\<close> on the workflow id \<open>x\<close> comes back as the error
  \<open>ErrWorkflowExecuteFail\<close> around the panic. For the events it does not: the operation
  returns the stream before any message is converted, so its deferred function is gone
  when the consumer calls \<open>Recv\<close>; on a \<open>Failed\<close> state message whose error is not a typed
  workflow error the converter panics, and the first \<open>Recv\<close> of the consumer ends in that
  panic, not in an error.
\<close>

theorem OpenAPIStreamRun_panic_escapes:
  "OpenAPIStreamRun (exampleSvc exampleFailedUntyped exampleInterrupted)
       ((exampleRunRequest None None)\<lparr>OpenAPIRunFlowRequest.WorkflowID := ''x''\<rparr>) 0
     = (Inl (WorkflowError ErrWorkflowExecuteFail []
               (Some (PanicErr (NumError ''x'' ErrSyntax)))), 0)
   \<and> OpenAPIStreamRun (exampleSvc exampleFailedUntyped exampleInterrupted)
       (exampleRunRequest None None) 0
     = (Inr \<lparr> source = exampleFailedUntyped, convWorkflowID = 7, convState = initConvState \<rparr>, 1)
   \<and> firstRecv exampleLib
       (OpenAPIStreamRun (exampleSvc exampleFailedUntyped exampleInterrupted)
          (exampleRunRequest None None) 0)
     = Some (RecvPanic (ErrorString ''stream run last error is not a WorkflowError''))"
proof -
  have a: "OpenAPIStreamRun (exampleSvc exampleFailedUntyped exampleInterrupted)
       ((exampleRunRequest None None)\<lparr>OpenAPIRunFlowRequest.WorkflowID := ''x''\<rparr>) 0
     = (Inl (WorkflowError ErrWorkflowExecuteFail []
               (Some (PanicErr (NumError ''x'' ErrSyntax)))), 0)"
    by (simp add: OpenAPIStreamRun_def OpenAPIStreamRunBody_def openAPIPrepare_def openAPIConfig_def
          exampleSvc_def exampleRunRequest_def bindR_def GetApiAuthFromCtx_def mustParseInt64_def
          ParseInt_letter deferRecover_def WrapIfNeeded_def)
  have b: "firstRecv exampleLib
       (OpenAPIStreamRun (exampleSvc exampleFailedUntyped exampleInterrupted)
          (exampleRunRequest None None) 0)
     = Some (RecvPanic (ErrorString ''stream run last error is not a WorkflowError''))"
    using recvFrom_failed_untyped
    by (auto simp: OpenAPIStreamRun_example firstRecv_def Recv_def split: prod.splits)
  show ?thesis using a b OpenAPIStreamRun_example by simp
qed

end
